theory Spec2Isabelle
  imports Complex_Main
begin

section \<open>Data model (app/models.py, alembic/versions/0001\_init.py)\<close>

text \<open>
  The service layer (app/service.py) is four functions that send parameterised SQL to a
  PostgreSQL/PostGIS store through a session object. The embedding keeps the two tables
  as lists of rows in storage order, the session as the pair of the committed tables and
  the view of the open transaction, and every exception of the store as a value.

  Conventions of the embedding:
  \<^item> a value of the \<open>uuid\<close> columns is represented by its canonical text, the form
    \<open>str(uuid)\<close> gives; the \<open>feature_id\<close> that callers pass is any text, which the
    store reads as a uuid or refuses (\<open>uuid_in\<close> below); the \<open>float\<close> columns and
    parameters are \<open>real\<close>; a timestamp is a number (microseconds since the epoch);
  \<^item> a text (\<open>str\<close>) is the list of its characters;
  \<^item> \<open>uuid.uuid4()\<close> and \<open>now()\<close> read the environment: their results are arguments
    (\<open>fid\<close> of \<open>create_feature\<close>, \<open>current_time\<close>); \<open>fid\<close> is the variable
    \<open>feature_id\<close> of the source throughout;
  \<^item> the record fields keep the column names; \<open>id\<close> is written \<open>id'\<close>, and the
    \<open>created_at\<close> and \<open>geom\<close> columns of \<open>footprints\<close> are written
    \<open>fp_created_at\<close> and \<open>fp_geom\<close>.
\<close>

type_synonym uuid = string
type_synonym datetime = nat

record 'pt feature =
  id' :: uuid
  name :: string
  status :: string
  attempts :: int
  created_at :: datetime
  updated_at :: "datetime option"
  geom :: 'pt

record 'poly footprint =
  feature_id :: uuid
  buffer_m :: int
  area_m2 :: real
  fp_created_at :: datetime
  fp_geom :: 'poly

record ('pt, 'poly) tables =
  features :: "'pt feature list"
  footprints :: "'poly footprint list"

text \<open>
  The spatial functions of the store that the queries call. They are not code of this
  repository, so they are parameters of the embedding. \<open>ST_MakePoint pg lon lat\<close>
  stands for \<open>ST_SetSRID(ST_MakePoint(:lon, :lat), 4326)::geography\<close>.
\<close>

record ('pt, 'poly) postgis =
  ST_MakePoint :: "real \<Rightarrow> real \<Rightarrow> 'pt"
  ST_Buffer :: "'pt \<Rightarrow> int \<Rightarrow> 'poly"
  ST_Area :: "'poly \<Rightarrow> real"
  ST_Distance :: "'pt \<Rightarrow> 'pt \<Rightarrow> real"
  ST_DWithin :: "'pt \<Rightarrow> 'pt \<Rightarrow> int \<Rightarrow> bool"

section \<open>The store\<close>

text \<open>
  What an exception of the store can be: a primary-key conflict, a text too long for its
  \<open>String(n)\<close> column, a number outside its \<open>Integer\<close> column, a text parameter
  that holds the character NUL, a text that is not a uuid where the \<open>uuid\<close> column
  type is expected, and a failure of the store that does not depend on the data
  (\<open>OperationalError\<close>: a lost connection, a timeout, an error inside a spatial
  function).
\<close>

datatype db_error =
  UniqueViolation | StringDataRightTruncation | NumericValueOutOfRange
  | NulCharacter | InvalidTextRepresentation | OperationalError

text \<open>The statements the service sends, and \<open>db.commit()\<close>.\<close>

datatype stmt =
  InsertFeature | SelectId | InsertFootprint | UpdateFeature | Commit
  | SelectFeature | SelectNear

text \<open>
  \<open>committed\<close> is what the store holds durably, \<open>working\<close> what the open transaction
  of the session sees, \<open>printed\<close> the lines \<open>process_feature\<close> has printed (the
  identifier and the exception of each \<open>Error processing feature ...\<close> line).
\<close>

record ('pt, 'poly) state =
  committed :: "('pt, 'poly) tables"
  working :: "('pt, 'poly) tables"
  printed :: "(string \<times> db_error) list"

text \<open>
  A text parameter. PostgreSQL text cannot hold the character NUL: a statement with
  such a parameter raises.
\<close>

definition text_param :: "string \<Rightarrow> db_error + string" where
  "text_param s = (if CHR 0x00 \<in> set s then Inl NulCharacter else Inr s)"

text \<open>
  The text of a uuid, as the \<open>uuid\<close> column type of PostgreSQL reads it: an optional
  opening brace, sixteen bytes of two hexadecimal digits each, in either case, with an
  optional hyphen after any group of four digits but the last, the closing brace when
  there was an opening one, and nothing more. \<open>uuid_bytes n\<close> reads the last \<open>n\<close> of
  the sixteen bytes; the value read is given by its canonical text (\<open>uuid_out\<close>),
  lower-case digits in groups of 8, 4, 4, 4 and 12.
\<close>

definition isxdigit :: "char \<Rightarrow> bool" where
  "isxdigit c = (c \<in> set ''0123456789abcdefABCDEF'')"

definition tolower_hex :: "char \<Rightarrow> char" where
  "tolower_hex c =
     (if c = CHR ''A'' then CHR ''a'' else if c = CHR ''B'' then CHR ''b''
      else if c = CHR ''C'' then CHR ''c'' else if c = CHR ''D'' then CHR ''d''
      else if c = CHR ''E'' then CHR ''e'' else if c = CHR ''F'' then CHR ''f'' else c)"

definition skip_hyphen :: "nat \<Rightarrow> string \<Rightarrow> string" where
  "skip_hyphen n src =
     (case src of
        c # rest \<Rightarrow> if c = CHR ''-'' \<and> even n \<and> 0 < n then rest else src
      | [] \<Rightarrow> [])"

primrec uuid_bytes :: "nat \<Rightarrow> string \<Rightarrow> (string \<times> string) option" where
  "uuid_bytes 0 src = Some ([], src)"
| "uuid_bytes (Suc n) src =
     (case src of
        a # b # rest \<Rightarrow>
          if isxdigit a \<and> isxdigit b then
            (case uuid_bytes n (skip_hyphen n rest) of
               None \<Rightarrow> None
             | Some (ds, r) \<Rightarrow> Some (tolower_hex a # tolower_hex b # ds, r))
          else None
      | _ \<Rightarrow> None)"

definition uuid_out :: "string \<Rightarrow> uuid" where
  "uuid_out ds =
     take 8 ds @ ''-'' @ take 4 (drop 8 ds) @ ''-'' @ take 4 (drop 12 ds) @ ''-''
       @ take 4 (drop 16 ds) @ ''-'' @ drop 20 ds"

definition uuid_in :: "string \<Rightarrow> uuid option" where
  "uuid_in src =
     (case (case src of
              c # rest \<Rightarrow> if c = CHR ''{'' then (True, rest) else (False, src)
            | [] \<Rightarrow> (False, src)) of
        (braces, s) \<Rightarrow>
          (case uuid_bytes 16 s of
             None \<Rightarrow> None
           | Some (ds, rest) \<Rightarrow>
               if rest = (if braces then ''}'' else []) then Some (uuid_out ds) else None))"

text \<open>
  The parameter \<open>:feature_id\<close> of a statement, a text that the store reads as a uuid
  where it meets the \<open>uuid\<close> column; the statement raises when it cannot.
\<close>

definition uuid_param :: "string \<Rightarrow> db_error + uuid" where
  "uuid_param s =
     (case text_param s of
        Inl e \<Rightarrow> Inl e
      | Inr s' \<Rightarrow> (case uuid_in s' of None \<Rightarrow> Inl InvalidTextRepresentation | Some u \<Rightarrow> Inr u))"

definition with_uuid :: "string \<Rightarrow> (uuid \<Rightarrow> 't \<Rightarrow> db_error + 'a) \<Rightarrow> 't \<Rightarrow> db_error + 'a" where
  "with_uuid fid run t = (case uuid_param fid of Inl e \<Rightarrow> Inl e | Inr u \<Rightarrow> run u t)"

text \<open>
  Column types of the schema. A \<open>String(n)\<close> column takes a longer text only when
  everything beyond the first \<open>n\<close> characters is spaces, and then cuts it; an
  \<open>Integer\<close> column holds 32-bit signed values and the store raises beyond them.
\<close>

definition varchar_col :: "nat \<Rightarrow> string \<Rightarrow> db_error + string" where
  "varchar_col n s =
     (case text_param s of
        Inl e \<Rightarrow> Inl e
      | Inr s' \<Rightarrow>
          if length s' \<le> n then Inr s'
          else if list_all (\<lambda>c. c = CHR '' '') (drop n s') then Inr (take n s')
          else Inl StringDataRightTruncation)"

definition integer_col :: "int \<Rightarrow> db_error + int" where
  "integer_col i =
     (if - 2147483648 \<le> i \<and> i \<le> 2147483647 then Inr i else Inl NumericValueOutOfRange)"

text \<open>\<open>INSERT INTO features\<close> of one row: \<open>name\<close> is \<open>String(200)\<close>, \<open>id\<close> the primary key.\<close>

definition insert_feature ::
  "'pt feature \<Rightarrow> ('pt, 'poly) tables \<Rightarrow> db_error + ('pt, 'poly) tables" where
  "insert_feature row t =
     (case varchar_col 200 (name row) of
        Inl e \<Rightarrow> Inl e
      | Inr n \<Rightarrow>
          if id' row \<in> set (map id' (features t)) then Inl UniqueViolation
          else Inr (t\<lparr>features := features t @ [row\<lparr>name := n\<rparr>]\<rparr>))"

text \<open>
  \<open>INSERT INTO footprints\<close> of one row: \<open>buffer_m\<close> is \<open>Integer\<close>, \<open>feature_id\<close>
  the primary key. (The foreign key to \<open>features.id\<close> cannot fail here: the rows
  inserted are selected from \<open>features\<close>.)
\<close>

definition insert_footprint ::
  "'poly footprint \<Rightarrow> ('pt, 'poly) tables \<Rightarrow> db_error + ('pt, 'poly) tables" where
  "insert_footprint row t =
     (case integer_col (buffer_m row) of
        Inl e \<Rightarrow> Inl e
      | Inr b \<Rightarrow>
          if feature_id row \<in> set (map feature_id (footprints t)) then Inl UniqueViolation
          else Inr (t\<lparr>footprints := footprints t @ [row]\<rparr>))"

fun insert_footprints ::
  "'poly footprint list \<Rightarrow> ('pt, 'poly) tables \<Rightarrow> db_error + ('pt, 'poly) tables" where
  "insert_footprints [] t = Inr t"
| "insert_footprints (row # rows) t =
     (case insert_footprint row t of
        Inl e \<Rightarrow> Inl e
      | Inr t' \<Rightarrow> insert_footprints rows t')"

text \<open>
  The \<open>SELECT ... FROM features f WHERE f.id = :feature_id\<close> that feeds the insert of
  \<open>process_feature\<close>: one footprint row for each feature row with this identifier, the
  area and the polygon both from \<open>ST_Buffer(f.geom, :buffer_m)\<close>.
\<close>

definition buffered ::
  "('pt, 'poly) postgis \<Rightarrow> uuid \<Rightarrow> int \<Rightarrow> datetime \<Rightarrow> 'pt feature \<Rightarrow> 'poly footprint" where
  "buffered pg fid r now f =
     \<lparr>feature_id = fid, buffer_m = r,
      area_m2 = ST_Area pg (ST_Buffer pg (geom f) r),
      fp_created_at = now,
      fp_geom = ST_Buffer pg (geom f) r\<rparr>"

definition buffer_rows ::
  "('pt, 'poly) postgis \<Rightarrow> uuid \<Rightarrow> int \<Rightarrow> datetime \<Rightarrow> ('pt, 'poly) tables
     \<Rightarrow> 'poly footprint list" where
  "buffer_rows pg fid r now t =
     map (buffered pg fid r now) (filter (\<lambda>f. id' f = fid) (features t))"

definition buffer_query ::
  "('pt, 'poly) postgis \<Rightarrow> uuid \<Rightarrow> int \<Rightarrow> datetime \<Rightarrow> ('pt, 'poly) tables
     \<Rightarrow> db_error + ('pt, 'poly) tables" where
  "buffer_query pg fid r now t = insert_footprints (buffer_rows pg fid r now t) t"

text \<open>
  \<open>UPDATE features SET status = 'done', updated_at = :updated_at, attempts = attempts + 1
  WHERE id = :feature_id\<close>; \<open>attempts\<close> is \<open>Integer\<close>.
\<close>

definition update_row :: "datetime \<Rightarrow> 'pt feature \<Rightarrow> db_error + 'pt feature" where
  "update_row now f =
     (case integer_col (attempts f + 1) of
        Inl e \<Rightarrow> Inl e
      | Inr a \<Rightarrow> Inr (f\<lparr>status := ''done'', updated_at := Some now, attempts := a\<rparr>))"

fun update_rows :: "uuid \<Rightarrow> datetime \<Rightarrow> 'pt feature list \<Rightarrow> db_error + 'pt feature list" where
  "update_rows fid now [] = Inr []"
| "update_rows fid now (f # fs) =
     (case (if id' f = fid then update_row now f else Inr f) of
        Inl e \<Rightarrow> Inl e
      | Inr f' \<Rightarrow>
          (case update_rows fid now fs of
             Inl e \<Rightarrow> Inl e
           | Inr fs' \<Rightarrow> Inr (f' # fs')))"

definition update_query ::
  "uuid \<Rightarrow> datetime \<Rightarrow> ('pt, 'poly) tables \<Rightarrow> db_error + ('pt, 'poly) tables" where
  "update_query fid now t =
     (case update_rows fid now (features t) of
        Inl e \<Rightarrow> Inl e
      | Inr fs \<Rightarrow> Inr (t\<lparr>features := fs\<rparr>))"

text \<open>
  \<open>FROM features f LEFT JOIN footprints fp ON f.id = fp.feature_id\<close>: every feature
  row, once for each footprint row that matches, and once with no footprint when none does.
\<close>

definition join_row ::
  "'poly footprint list \<Rightarrow> 'pt feature \<Rightarrow> ('pt feature \<times> 'poly footprint option) list" where
  "join_row fps f =
     (case filter (\<lambda>fp. feature_id fp = id' f) fps of
        [] \<Rightarrow> [(f, None)]
      | fp # rest \<Rightarrow> map (\<lambda>p. (f, Some p)) (fp # rest))"

definition left_join ::
  "('pt, 'poly) tables \<Rightarrow> ('pt feature \<times> 'poly footprint option) list" where
  "left_join t = concat (map (join_row (footprints t)) (features t))"

section \<open>The session\<close>

text \<open>
  \<open>faults\<close> says which calls of the session the store fails for a reason that does not
  depend on the data. \<open>db.execute\<close> of a statement that writes runs it on the view of
  the open transaction; of a query, reads that view; \<open>db.commit()\<close> makes the view
  durable; \<open>db.rollback()\<close> drops it.
\<close>

definition execute ::
  "(stmt \<Rightarrow> bool) \<Rightarrow> stmt \<Rightarrow> (('pt, 'poly) tables \<Rightarrow> db_error + ('pt, 'poly) tables)
     \<Rightarrow> ('pt, 'poly) state \<Rightarrow> db_error + ('pt, 'poly) state" where
  "execute faults q run s =
     (if faults q then Inl OperationalError
      else (case run (working s) of
              Inl e \<Rightarrow> Inl e
            | Inr t \<Rightarrow> Inr (s\<lparr>working := t\<rparr>)))"

definition query ::
  "(stmt \<Rightarrow> bool) \<Rightarrow> stmt \<Rightarrow> (('pt, 'poly) tables \<Rightarrow> db_error + 'a) \<Rightarrow> ('pt, 'poly) state
     \<Rightarrow> db_error + 'a" where
  "query faults q run s = (if faults q then Inl OperationalError else run (working s))"

definition commit ::
  "(stmt \<Rightarrow> bool) \<Rightarrow> ('pt, 'poly) state \<Rightarrow> db_error + ('pt, 'poly) state" where
  "commit faults s =
     (if faults Commit then Inl OperationalError else Inr (s\<lparr>committed := working s\<rparr>))"

definition rollback :: "('pt, 'poly) state \<Rightarrow> ('pt, 'poly) state" where
  "rollback s = s\<lparr>working := committed s\<rparr>"

section \<open>The service (app/service.py)\<close>

text \<open>
  \<open>create_feature\<close> has no handler: an exception of the store leaves it. The result
  is the exception or the new identifier, with the session as the call leaves it.
  \<open>fid\<close> is the value of \<open>uuid.uuid4()\<close>, a uuid.
\<close>

definition create_feature ::
  "('pt, 'poly) postgis \<Rightarrow> (stmt \<Rightarrow> bool) \<Rightarrow> ('pt, 'poly) state \<Rightarrow> uuid \<Rightarrow> datetime
     \<Rightarrow> string \<Rightarrow> real \<Rightarrow> real \<Rightarrow> (db_error + uuid) \<times> ('pt, 'poly) state" where
  "create_feature pg faults db fid current_time name_arg lat lon =
     (case execute faults InsertFeature
             (insert_feature \<lparr>id' = fid, name = name_arg, status = ''queued'',
                              attempts = 0, created_at = current_time,
                              updated_at = Some current_time,
                              geom = ST_MakePoint pg lon lat\<rparr>) db of
        Inl e \<Rightarrow> (Inl e, db)
      | Inr db1 \<Rightarrow>
          (case commit faults db1 of
             Inl e \<Rightarrow> (Inl e, db1)
           | Inr db2 \<Rightarrow> (Inr fid, db2)))"

text \<open>
  The body of the \<open>try\<close> of \<open>process_feature\<close>: the exception that leaves it,
  with the session as it is when the exception is raised, or the value the body returns,
  with the session. A statement that fails leaves the view of the transaction as it was
  before the statement.
\<close>

definition process_feature_try ::
  "('pt, 'poly) postgis \<Rightarrow> (stmt \<Rightarrow> bool) \<Rightarrow> ('pt, 'poly) state \<Rightarrow> datetime \<Rightarrow> string \<Rightarrow> int
     \<Rightarrow> (db_error \<times> ('pt, 'poly) state) + (bool \<times> ('pt, 'poly) state)" where
  "process_feature_try pg faults db current_time fid r =
     (case query faults SelectId
             (with_uuid fid (\<lambda>u t. Inr (filter (\<lambda>f. id' f = u) (features t)))) db of
        Inl e \<Rightarrow> Inl (e, db)
      | Inr rows \<Rightarrow>
          if rows = [] then Inr (False, db)
          else
            (case execute faults InsertFootprint
                    (with_uuid fid (\<lambda>u. buffer_query pg u r current_time)) db of
               Inl e \<Rightarrow> Inl (e, db)
             | Inr db1 \<Rightarrow>
                 (case execute faults UpdateFeature
                         (with_uuid fid (\<lambda>u. update_query u current_time)) db1 of
                    Inl e \<Rightarrow> Inl (e, db1)
                  | Inr db2 \<Rightarrow>
                      (case commit faults db2 of
                         Inl e \<Rightarrow> Inl (e, db2)
                       | Inr db3 \<Rightarrow> Inr (True, db3)))))"

text \<open>
  \<open>except Exception as e: db.rollback(); print(...); return False\<close>, on the session
  as the exception left it.
\<close>

definition process_feature ::
  "('pt, 'poly) postgis \<Rightarrow> (stmt \<Rightarrow> bool) \<Rightarrow> ('pt, 'poly) state \<Rightarrow> datetime \<Rightarrow> string \<Rightarrow> int
     \<Rightarrow> bool \<times> ('pt, 'poly) state" where
  "process_feature pg faults db current_time fid r =
     (case process_feature_try pg faults db current_time fid r of
        Inr res \<Rightarrow> res
      | Inl (e, dbe) \<Rightarrow> (False, (rollback dbe)\<lparr>printed := printed dbe @ [(fid, e)]\<rparr>))"

text \<open>
  The values of the dictionaries the two queries return. \<open>isoformat\<close> is
  \<open>datetime.isoformat\<close> of the Python library, a parameter. A \<open>datetime\<close> is always
  true in a condition, so \<open>x.isoformat() if x else None\<close> is \<open>None\<close> only for a
  null column; a \<open>float\<close> is false when it is zero, so
  \<open>float(d) if d else None\<close> is \<open>None\<close> for the distance \<open>0.0\<close>.
\<close>

datatype pyval = PyNone | PyStr string | PyInt int | PyFloat real

type_synonym dict = "(string \<times> pyval) list"

definition feature_dict ::
  "(datetime \<Rightarrow> string) \<Rightarrow> 'pt feature \<times> 'poly footprint option \<Rightarrow> dict" where
  "feature_dict isoformat result =
     (case result of (f, fp) \<Rightarrow>
        [(''id'', PyStr (id' f)),
         (''name'', PyStr (name f)),
         (''status'', PyStr (status f)),
         (''attempts'', PyInt (attempts f)),
         (''created_at'', PyStr (isoformat (created_at f))),
         (''updated_at'', case updated_at f of None \<Rightarrow> PyNone | Some u \<Rightarrow> PyStr (isoformat u)),
         (''buffer_m'', case fp of None \<Rightarrow> PyNone | Some p \<Rightarrow> PyInt (buffer_m p)),
         (''buffer_area_m2'', case fp of None \<Rightarrow> PyNone | Some p \<Rightarrow> PyFloat (area_m2 p))])"

text \<open>
  \<open>get_feature\<close>: \<open>fetchone()\<close> is the first row of the result, or \<open>None\<close>. There
  is no handler: an exception of the store leaves the function.
\<close>

definition get_feature ::
  "(datetime \<Rightarrow> string) \<Rightarrow> (stmt \<Rightarrow> bool) \<Rightarrow> ('pt, 'poly) state \<Rightarrow> string
     \<Rightarrow> db_error + dict option" where
  "get_feature isoformat faults db fid =
     (case query faults SelectFeature
             (with_uuid fid (\<lambda>u t. Inr (filter (\<lambda>(f, fp). id' f = u) (left_join t)))) db of
        Inl e \<Rightarrow> Inl e
      | Inr rows \<Rightarrow>
          (case rows of
             [] \<Rightarrow> Inr None
           | result # _ \<Rightarrow> Inr (Some (feature_dict isoformat result))))"

text \<open>
  \<open>features_near\<close>: the joined rows that pass \<open>ST_DWithin\<close>, each with its
  \<open>ST_Distance\<close>, in the order of \<open>ORDER BY distance_m\<close> (ascending; rows of equal
  distance are kept here in storage order, which the store does not promise).
\<close>

definition near_query ::
  "('pt, 'poly) postgis \<Rightarrow> real \<Rightarrow> real \<Rightarrow> int \<Rightarrow> ('pt, 'poly) tables
     \<Rightarrow> (('pt feature \<times> 'poly footprint option) \<times> real) list" where
  "near_query pg lat lon radius_m t =
     sort_key snd
       (map (\<lambda>(f, fp). ((f, fp), ST_Distance pg (geom f) (ST_MakePoint pg lon lat)))
            (filter (\<lambda>(f, fp). ST_DWithin pg (geom f) (ST_MakePoint pg lon lat) radius_m)
                    (left_join t)))"

definition near_dict ::
  "(datetime \<Rightarrow> string) \<Rightarrow> ('pt feature \<times> 'poly footprint option) \<times> real \<Rightarrow> dict" where
  "near_dict isoformat result =
     feature_dict isoformat (fst result)
       @ [(''distance_m'', if snd result \<noteq> 0 then PyFloat (snd result) else PyNone)]"

definition features_near ::
  "('pt, 'poly) postgis \<Rightarrow> (datetime \<Rightarrow> string) \<Rightarrow> (stmt \<Rightarrow> bool) \<Rightarrow> ('pt, 'poly) state
     \<Rightarrow> real \<Rightarrow> real \<Rightarrow> int \<Rightarrow> db_error + dict list" where
  "features_near pg isoformat faults db lat lon radius_m =
     (case query faults SelectNear (\<lambda>t. Inr (near_query pg lat lon radius_m t)) db of
        Inl e \<Rightarrow> Inl e
      | Inr results \<Rightarrow> Inr (map (near_dict isoformat) results))"

section \<open>What the claims speak of\<close>

text \<open>
  The feature row as a successful \<open>process_feature\<close> leaves it, the texts that are
  uuids, the identifiers the two tables carry, the consistency of the footprints, and
  the sessions the service can produce from the empty store.
\<close>

definition mark_done :: "uuid \<Rightarrow> datetime \<Rightarrow> 'pt feature \<Rightarrow> 'pt feature" where
  "mark_done fid now f =
     (if id' f = fid
      then f\<lparr>status := ''done'', updated_at := Some now, attempts := attempts f + 1\<rparr>
      else f)"

text \<open>
  A property of \<open>ST_DWithin\<close> that the code relies on and cannot establish: a pair of
  points within a radius is within every larger radius.
\<close>

definition radius_monotone :: "('pt, 'poly) postgis \<Rightarrow> bool" where
  "radius_monotone pg =
     (\<forall>p q r r'. r \<le> r' \<longrightarrow> ST_DWithin pg p q r \<longrightarrow> ST_DWithin pg p q r')"

text \<open>The texts that are values of the \<open>uuid\<close> type: the canonical ones.\<close>

definition is_uuid :: "string \<Rightarrow> bool" where
  "is_uuid s = (uuid_param s = Inr s)"

definition feature_ids :: "('pt, 'poly) tables \<Rightarrow> uuid set" where
  "feature_ids t = set (map id' (features t))"

definition footprint_ids :: "('pt, 'poly) tables \<Rightarrow> uuid set" where
  "footprint_ids t = set (map feature_id (footprints t))"

text \<open>
  The consistency of the footprints of a pair of tables: the area of every footprint row
  is the area of its polygon, and the polygon is the buffer, at the radius of the row, of
  the point of a feature row with the identifier of the footprint.
\<close>

definition footprint_consistent :: "('pt, 'poly) postgis \<Rightarrow> ('pt, 'poly) tables \<Rightarrow> bool" where
  "footprint_consistent pg t =
     (\<forall>fp \<in> set (footprints t).
        area_m2 fp = ST_Area pg (fp_geom fp)
        \<and> (\<exists>f \<in> set (features t).
              id' f = feature_id fp \<and> fp_geom fp = ST_Buffer pg (geom f) (buffer_m fp)))"

text \<open>
  The sessions that calls of \<open>create_feature\<close> and \<open>process_feature\<close> produce from
  the empty store, with any arguments, any clock and any failures of the store
  (\<open>get_feature\<close> and \<open>features_near\<close> only read).
\<close>

inductive reachable :: "('pt, 'poly) postgis \<Rightarrow> ('pt, 'poly) state \<Rightarrow> bool"
  for pg :: "('pt, 'poly) postgis" where
  start:
    "reachable pg \<lparr>committed = \<lparr>features = [], footprints = []\<rparr>,
                   working = \<lparr>features = [], footprints = []\<rparr>, printed = []\<rparr>"
| create:
    "reachable pg db \<Longrightarrow>
     reachable pg (snd (create_feature pg faults db fid current_time name_arg lat lon))"
| process:
    "reachable pg db \<Longrightarrow>
     reachable pg (snd (process_feature pg faults db current_time fid r))"

section \<open>A concrete store for the examples\<close>

text \<open>
  The examples below run the service on a small store: points are pairs of coordinates,
  the distance is the sum of the coordinate differences, the buffer of a point is the
  point with its radius and its area is the square of side \<open>2 r\<close>. The timestamp \<open>t\<close>
  is rendered as \<open>t\<close> marks, and read back by counting them. The buffer of radius
  \<open>0\<close> has the area \<open>0\<close>, as the empty polygon that \<open>ST_Buffer\<close> gives a point at
  radius \<open>0\<close>.
\<close>

definition plane :: "(real \<times> real, (real \<times> real) \<times> int) postgis" where
  "plane = \<lparr>ST_MakePoint = (\<lambda>lon lat. (lon, lat)),
            ST_Buffer = (\<lambda>p r. (p, r)),
            ST_Area = (\<lambda>b. real_of_int (4 * snd b * snd b)),
            ST_Distance = (\<lambda>p q. \<bar>fst p - fst q\<bar> + \<bar>snd p - snd q\<bar>),
            ST_DWithin = (\<lambda>p q r. \<bar>fst p - fst q\<bar> + \<bar>snd p - snd q\<bar> \<le> real_of_int r)\<rparr>"

definition marks :: "datetime \<Rightarrow> string" where
  "marks t = replicate t CHR ''I''"


definition no_faults :: "stmt \<Rightarrow> bool" where
  "no_faults q = False"

definition only_fault :: "stmt \<Rightarrow> stmt \<Rightarrow> bool" where
  "only_fault q0 q = (q = q0)"

definition id_a :: uuid where
  "id_a = ''a0eebc99-9c0b-4ef8-bb6d-6bb9bd380a11''"

definition id_b :: uuid where
  "id_b = ''b1ffcd00-0d1c-4fa9-8c7e-7cc0ce491b22''"

definition id_c :: uuid where
  "id_c = ''c2aade11-1e2d-4ab0-9d8f-8dd1df5a2c33''"

definition pier_a :: "(real \<times> real) feature" where
  "pier_a = \<lparr>id' = id_a, name = ''Pier A'', status = ''queued'', attempts = 0,
             created_at = 1, updated_at = Some 1, geom = (- 73, 45)\<rparr>"

definition pier_b :: "(real \<times> real) feature" where
  "pier_b = \<lparr>id' = id_b, name = ''Pier B'', status = ''queued'', attempts = 0,
             created_at = 2, updated_at = Some 2, geom = (- 73, 46)\<rparr>"

definition empty_tables :: "(real \<times> real, (real \<times> real) \<times> int) tables" where
  "empty_tables = \<lparr>features = [], footprints = []\<rparr>"

definition empty_db :: "(real \<times> real, (real \<times> real) \<times> int) state" where
  "empty_db = \<lparr>committed = empty_tables, working = empty_tables, printed = []\<rparr>"

definition two_piers :: "(real \<times> real, (real \<times> real) \<times> int) tables" where
  "two_piers = \<lparr>features = [pier_a, pier_b], footprints = []\<rparr>"

definition two_piers_db :: "(real \<times> real, (real \<times> real) \<times> int) state" where
  "two_piers_db = \<lparr>committed = two_piers, working = two_piers, printed = []\<rparr>"

definition pier_a_near ::
  "((real \<times> real) feature \<times> ((real \<times> real) \<times> int) footprint option) \<times> real" where
  "pier_a_near = ((pier_a, None), 0)"

definition pier_b_near ::
  "((real \<times> real) feature \<times> ((real \<times> real) \<times> int) footprint option) \<times> real" where
  "pier_b_near = ((pier_b, None), 1)"

definition pier_a_done :: "(real \<times> real) feature" where
  "pier_a_done = pier_a\<lparr>status := ''done'', updated_at := Some 3, attempts := 1\<rparr>"

definition pier_a_footprint :: "((real \<times> real) \<times> int) footprint" where
  "pier_a_footprint = \<lparr>feature_id = id_a, buffer_m = 500, area_m2 = 1000000,
                        fp_created_at = 3, fp_geom = ((- 73, 45), 500)\<rparr>"

definition processed :: "(real \<times> real, (real \<times> real) \<times> int) tables" where
  "processed = \<lparr>features = [pier_a_done, pier_b], footprints = [pier_a_footprint]\<rparr>"

definition processed_db :: "(real \<times> real, (real \<times> real) \<times> int) state" where
  "processed_db = \<lparr>committed = processed, working = processed, printed = []\<rparr>"

definition pier_a_flat :: "((real \<times> real) \<times> int) footprint" where
  "pier_a_flat = \<lparr>feature_id = id_a, buffer_m = 0, area_m2 = 0,
                   fp_created_at = 3, fp_geom = ((- 73, 45), 0)\<rparr>"

definition flat :: "(real \<times> real, (real \<times> real) \<times> int) tables" where
  "flat = \<lparr>features = [pier_a_done, pier_b], footprints = [pier_a_flat]\<rparr>"

definition flat_db :: "(real \<times> real, (real \<times> real) \<times> int) state" where
  "flat_db = \<lparr>committed = flat, working = flat, printed = []\<rparr>"

section \<open>What the statements do when they succeed\<close>

lemma integer_col_Inr:
  "integer_col i = Inr j \<Longrightarrow> j = i \<and> - 2147483648 \<le> i \<and> i \<le> 2147483647"
  by (auto simp: integer_col_def split: if_splits)

lemma execute_Inr:
  "execute faults q run s = Inr s' \<Longrightarrow>
     \<not> faults q \<and> (\<exists>t. run (working s) = Inr t \<and> s' = s\<lparr>working := t\<rparr>)"
  by (auto simp: execute_def split: if_splits sum.splits)

lemma execute_keeps:
  "execute faults q run s = Inr s' \<Longrightarrow> committed s' = committed s \<and> printed s' = printed s"
  by (auto dest: execute_Inr)

lemma commit_Inr:
  "commit faults s = Inr s' \<Longrightarrow> \<not> faults Commit \<and> s' = s\<lparr>committed := working s\<rparr>"
  by (auto simp: commit_def split: if_splits)

lemma insert_footprint_Inr:
  "insert_footprint row t = Inr t' \<Longrightarrow>
     t' = t\<lparr>footprints := footprints t @ [row]\<rparr>
     \<and> feature_id row \<notin> set (map feature_id (footprints t))
     \<and> - 2147483648 \<le> buffer_m row \<and> buffer_m row \<le> 2147483647"
  by (auto simp: insert_footprint_def split: if_splits sum.splits dest: integer_col_Inr)

lemma insert_footprints_Inr:
  "insert_footprints rows t = Inr t' \<Longrightarrow>
     t' = t\<lparr>footprints := footprints t @ rows\<rparr>
     \<and> distinct (map feature_id rows)
     \<and> (\<forall>row \<in> set rows. feature_id row \<notin> set (map feature_id (footprints t))
            \<and> - 2147483648 \<le> buffer_m row \<and> buffer_m row \<le> 2147483647)"
proof (induction rows arbitrary: t)
  case Nil
  then show ?case by simp
next
  case (Cons row rows)
  from Cons.prems obtain t1 where
    one: "insert_footprint row t = Inr t1" and rest: "insert_footprints rows t1 = Inr t'"
    by (auto split: sum.splits)
  note a = insert_footprint_Inr [OF one]
  note b = Cons.IH [OF rest]
  from a have fp1: "footprints t1 = footprints t @ [row]"
    by simp
  from a b have c1: "t' = t\<lparr>footprints := footprints t @ row # rows\<rparr>"
    by simp
  from b fp1 have c2: "feature_id row \<notin> set (map feature_id rows)"
    by fastforce
  from b fp1 have c3: "\<forall>x \<in> set rows. feature_id x \<notin> set (map feature_id (footprints t))
            \<and> - 2147483648 \<le> buffer_m x \<and> buffer_m x \<le> 2147483647"
    by simp
  from a b c1 c2 c3 show ?case
    by simp
qed

lemma same_key_distinct:
  "distinct (map (\<lambda>x. k) xs) \<Longrightarrow> xs = [] \<or> (\<exists>x. xs = [x])"
  by (cases xs; cases "tl xs") auto

lemma buffer_query_Inr:
  assumes "buffer_query pg fid r now t = Inr t'"
    and "filter (\<lambda>f. id' f = fid) (features t) \<noteq> []"
  shows "\<exists>f. filter (\<lambda>f. id' f = fid) (features t) = [f]
           \<and> t' = t\<lparr>footprints := footprints t @ [buffered pg fid r now f]\<rparr>
           \<and> fid \<notin> set (map feature_id (footprints t))
           \<and> - 2147483648 \<le> r \<and> r \<le> 2147483647"
proof -
  let ?fs = "filter (\<lambda>f. id' f = fid) (features t)"
  note a = insert_footprints_Inr [OF assms(1) [unfolded buffer_query_def]]
  from a have "distinct (map (\<lambda>f. fid) ?fs)"
    by (simp add: buffer_rows_def buffered_def comp_def)
  from same_key_distinct [OF this] assms(2) obtain f where f: "?fs = [f]"
    by auto
  with a show ?thesis
    by (simp add: buffer_rows_def buffered_def)
qed

lemma update_row_Inr:
  "update_row now f = Inr f' \<Longrightarrow>
     f' = f\<lparr>status := ''done'', updated_at := Some now, attempts := attempts f + 1\<rparr>"
  by (auto simp: update_row_def split: sum.splits dest: integer_col_Inr)

lemma update_rows_Inr:
  "update_rows fid now fs = Inr fs' \<Longrightarrow> fs' = map (mark_done fid now) fs"
proof (induction fs arbitrary: fs')
  case Nil
  then show ?case by simp
next
  case (Cons f fs)
  from Cons.prems obtain f1 fs1 where
    h: "(if id' f = fid then update_row now f else Inr f) = Inr f1"
    and r: "update_rows fid now fs = Inr fs1"
    and e: "fs' = f1 # fs1"
    by (simp split: sum.splits)
  from h have "f1 = mark_done fid now f"
    by (auto simp: mark_done_def split: if_splits dest: update_row_Inr)
  with Cons.IH [OF r] e show ?case
    by simp
qed

lemma update_query_Inr:
  "update_query fid now t = Inr t' \<Longrightarrow> t' = t\<lparr>features := map (mark_done fid now) (features t)\<rparr>"
  by (auto simp: update_query_def split: sum.splits dest: update_rows_Inr)

section \<open>The identifier parameter\<close>

lemma with_uuid_Inr:
  "with_uuid fid run t = Inr x \<Longrightarrow> \<exists>u. uuid_param fid = Inr u \<and> run u t = Inr x"
  by (auto simp: with_uuid_def split: sum.splits)

lemma with_uuid_param: "uuid_param fid = Inr u \<Longrightarrow> with_uuid fid run t = run u t"
  by (simp add: with_uuid_def)

lemma with_uuid_refused: "uuid_param fid = Inl e \<Longrightarrow> with_uuid fid run t = Inl e"
  by (simp add: with_uuid_def)

lemma example_ids:
  "uuid_param id_a = Inr id_a" "uuid_param id_b = Inr id_b" "uuid_param id_c = Inr id_c"
  "id_a \<noteq> id_b" "id_b \<noteq> id_a" "id_a \<noteq> id_c" "id_c \<noteq> id_a" "id_b \<noteq> id_c" "id_c \<noteq> id_b"
  by code_simp+

lemma example_texts:
  "uuid_param ''non-existent-id'' = Inl InvalidTextRepresentation"
  "uuid_param ''zz'' = Inl InvalidTextRepresentation"
  "uuid_param ''{A0EEBC99-9C0B4EF8-BB6D6BB9-BD380A11}'' = Inr id_a"
  by code_simp+

section \<open>The body of the try\<close>

lemma try_raises_keeps:
  assumes "process_feature_try pg faults db now fid r = Inl (e, dbe)"
  shows "committed dbe = committed db \<and> printed dbe = printed db"
  using assms
  by (auto simp: process_feature_try_def query_def split: if_splits sum.splits dest!: execute_keeps)

lemma try_returns_False:
  assumes "process_feature_try pg faults db now fid r = Inr (False, db')"
  shows "db' = db"
  using assms
  by (auto simp: process_feature_try_def query_def commit_def split: if_splits sum.splits)

lemma try_returns_True:
  assumes "process_feature_try pg faults db now fid r = Inr (True, db')"
  shows "\<exists>u f. uuid_param fid = Inr u
           \<and> filter (\<lambda>f. id' f = u) (features (working db)) = [f]
           \<and> u \<notin> set (map feature_id (footprints (working db)))
           \<and> working db' = \<lparr>features = map (mark_done u now) (features (working db)),
                              footprints = footprints (working db) @ [buffered pg u r now f]\<rparr>
           \<and> committed db' = working db' \<and> printed db' = printed db"
proof -
  from assms obtain rows db1 db2 where
    s0: "query faults SelectId
           (with_uuid fid (\<lambda>u t. Inr (filter (\<lambda>f. id' f = u) (features t)))) db = Inr rows"
    and ne: "rows \<noteq> []"
    and s1: "execute faults InsertFootprint (with_uuid fid (\<lambda>u. buffer_query pg u r now)) db
               = Inr db1"
    and s2: "execute faults UpdateFeature (with_uuid fid (\<lambda>u. update_query u now)) db1 = Inr db2"
    and s3: "commit faults db2 = Inr db'"
    by (auto simp: process_feature_try_def split: if_splits sum.splits)
  from s0 have "with_uuid fid (\<lambda>u t. Inr (filter (\<lambda>f. id' f = u) (features t))) (working db)
                  = Inr rows"
    by (simp add: query_def split: if_splits)
  from with_uuid_Inr [OF this] obtain u where
    u: "uuid_param fid = Inr u" and rows: "rows = filter (\<lambda>f. id' f = u) (features (working db))"
    by auto
  from execute_Inr [OF s1] obtain t1 where
    t1: "buffer_query pg u r now (working db) = Inr t1" and db1: "db1 = db\<lparr>working := t1\<rparr>"
    by (auto simp: with_uuid_param [OF u])
  from execute_Inr [OF s2] obtain t2 where
    t2: "update_query u now (working db1) = Inr t2" and db2: "db2 = db1\<lparr>working := t2\<rparr>"
    by (auto simp: with_uuid_param [OF u])
  from ne rows have ne': "filter (\<lambda>f. id' f = u) (features (working db)) \<noteq> []"
    by simp
  from buffer_query_Inr [OF t1 ne'] obtain f where
    f: "filter (\<lambda>f. id' f = u) (features (working db)) = [f]"
    and t1': "t1 = (working db)\<lparr>footprints := footprints (working db) @ [buffered pg u r now f]\<rparr>"
    and fresh: "u \<notin> set (map feature_id (footprints (working db)))"
    by blast
  from update_query_Inr [OF t2] db1 have t2': "t2 = t1\<lparr>features := map (mark_done u now) (features t1)\<rparr>"
    by simp
  from commit_Inr [OF s3] have db': "db' = db2\<lparr>committed := working db2\<rparr>"
    by simp
  from f fresh t1' t2' db1 db2 db' have
    "filter (\<lambda>f. id' f = u) (features (working db)) = [f]
           \<and> u \<notin> set (map feature_id (footprints (working db)))
           \<and> working db' = \<lparr>features = map (mark_done u now) (features (working db)),
                              footprints = footprints (working db) @ [buffered pg u r now f]\<rparr>
           \<and> committed db' = working db' \<and> printed db' = printed db"
    by simp
  with u show ?thesis
    by blast
qed

lemma try_check:
  "process_feature_try pg faults db now fid r =
     (case (if faults SelectId then Inl OperationalError else uuid_param fid) of
        Inl e \<Rightarrow> Inl (e, db)
      | Inr u \<Rightarrow>
          if u \<notin> feature_ids (working db) then Inr (False, db)
          else process_feature_try pg faults db now fid r)"
proof (cases "faults SelectId")
  case True
  then show ?thesis
    by (simp add: process_feature_try_def query_def)
next
  case False
  show ?thesis
  proof (cases "uuid_param fid")
    case (Inl e)
    with False show ?thesis
      by (simp add: process_feature_try_def query_def with_uuid_refused)
  next
    case (Inr u)
    have "u \<notin> feature_ids (working db) \<Longrightarrow> filter (\<lambda>f. id' f = u) (features (working db)) = []"
      by (auto simp: feature_ids_def filter_empty_conv)
    with False Inr show ?thesis
      by (simp add: process_feature_try_def query_def with_uuid_param)
  qed
qed

section \<open>The join and the dictionaries\<close>

lemma join_row_fst: "x \<in> set (join_row fps f) \<Longrightarrow> fst x = f"
  by (auto simp: join_row_def split: list.splits)

lemma filter_join_row:
  "filter (\<lambda>(g, fp). P g) (join_row fps f) = (if P f then join_row fps f else [])"
proof (cases "P f")
  case True
  then have "\<forall>x \<in> set (join_row fps f). (\<lambda>(g, fp). P g) x"
    by (auto dest: join_row_fst)
  with True show ?thesis
    by (simp only: filter_True if_True)
next
  case False
  then have "\<forall>x \<in> set (join_row fps f). \<not> (\<lambda>(g, fp). P g) x"
    by (auto dest: join_row_fst)
  with False show ?thesis
    by (simp only: filter_False if_False)
qed

lemma filter_left_join:
  "filter (\<lambda>(g, fp). P g) (concat (map (join_row fps) fs))
     = concat (map (join_row fps) (filter P fs))"
  by (induction fs) (simp_all add: filter_join_row)

lemma join_row_hd:
  "join_row fps f =
     (f, case filter (\<lambda>fp. feature_id fp = id' f) fps of [] \<Rightarrow> None | fp # rest \<Rightarrow> Some fp)
       # tl (join_row fps f)"
  by (simp add: join_row_def split: list.splits)

lemma get_feature_raises:
  "get_feature isoformat faults db fid = Inl e \<longleftrightarrow>
     (if faults SelectFeature then Inl OperationalError else uuid_param fid) = Inl e"
  by (cases "uuid_param fid")
     (auto simp: get_feature_def query_def with_uuid_def split: list.splits)


lemma get_feature_found:
  assumes "\<not> faults SelectFeature" and "uuid_param fid = Inr u"
    and "filter (\<lambda>f. id' f = u) (features (working db)) = f # others"
  shows "get_feature isoformat faults db fid =
           Inr (Some (feature_dict isoformat
                  (f, case filter (\<lambda>fp. feature_id fp = u) (footprints (working db)) of
                        [] \<Rightarrow> None | fp # rest \<Rightarrow> Some fp)))"
proof -
  from assms(3) have "f \<in> set (filter (\<lambda>f. id' f = u) (features (working db)))"
    by simp
  then have idf: "id' f = u"
    by simp
  have "filter (\<lambda>(g, fp). id' g = u) (left_join (working db))
          = join_row (footprints (working db)) f
              @ concat (map (join_row (footprints (working db))) others)"
    by (simp add: left_join_def filter_left_join assms(3))
  also have "\<dots> = (f, case filter (\<lambda>fp. feature_id fp = u) (footprints (working db)) of
                        [] \<Rightarrow> None | fp # rest \<Rightarrow> Some fp)
                  # (tl (join_row (footprints (working db)) f)
                      @ concat (map (join_row (footprints (working db))) others))"
    using join_row_hd [of "footprints (working db)" f] idf by simp
  finally show ?thesis
    using assms(1,2) by (simp add: get_feature_def query_def with_uuid_param)
qed

lemma feature_dict_keys:
  "map_of (feature_dict isoformat (f, fpo)) ''id'' = Some (PyStr (id' f))"
  "map_of (feature_dict isoformat (f, fpo)) ''name'' = Some (PyStr (name f))"
  "map_of (feature_dict isoformat (f, fpo)) ''status'' = Some (PyStr (status f))"
  "map_of (feature_dict isoformat (f, fpo)) ''attempts'' = Some (PyInt (attempts f))"
  "map_of (feature_dict isoformat (f, fpo)) ''created_at'' = Some (PyStr (isoformat (created_at f)))"
  "map_of (feature_dict isoformat (f, fpo)) ''updated_at''
     = Some (case updated_at f of None \<Rightarrow> PyNone | Some u \<Rightarrow> PyStr (isoformat u))"
  "map_of (feature_dict isoformat (f, fpo)) ''buffer_m''
     = Some (case fpo of None \<Rightarrow> PyNone | Some p \<Rightarrow> PyInt (buffer_m p))"
  "map_of (feature_dict isoformat (f, fpo)) ''buffer_area_m2''
     = Some (case fpo of None \<Rightarrow> PyNone | Some p \<Rightarrow> PyFloat (area_m2 p))"
  by (simp_all add: feature_dict_def)

lemma id_mark_done: "id' (mark_done fid now f) = id' f"
  by (simp add: mark_done_def)

lemma filter_mark_done:
  "filter (\<lambda>g. id' g = k) (map (mark_done fid now) fs)
     = map (mark_done fid now) (filter (\<lambda>g. id' g = k) fs)"
  by (induction fs) (simp_all add: id_mark_done)

lemma filter_no_key:
  "k \<notin> set (map feature_id fps) \<Longrightarrow> filter (\<lambda>fp. feature_id fp = k) fps = []"
  by (induction fps) auto

section \<open>Processing: success\<close>

lemma two_piers_processed:
  "process_feature plane no_faults two_piers_db 3 id_a 500 = (True, processed_db)"
  by (simp add: process_feature_def process_feature_try_def query_def execute_def commit_def
      with_uuid_def example_ids no_faults_def two_piers_db_def two_piers_def processed_db_def
      processed_def pier_a_def pier_b_def pier_a_done_def pier_a_footprint_def
      buffer_query_def buffer_rows_def buffered_def plane_def insert_footprint_def
      integer_col_def update_query_def update_row_def)

text \<open>
  Claim C1, as stated, fails at the radius \<open>0\<close>: \<open>process_feature\<close> has no guard on
  the radius, the call succeeds, and the area that \<open>get_feature\<close> then returns is the
  area of the buffer of radius \<open>0\<close>, which is \<open>0\<close> and not positive.
\<close>

theorem process_feature_zero_radius_counterexample:
  "process_feature plane no_faults two_piers_db 3 id_a 0 = (True, flat_db)
   \<and> get_feature marks no_faults flat_db id_a
       = Inr (Some (feature_dict marks (pier_a_done, Some pier_a_flat)))
   \<and> map_of (feature_dict marks (pier_a_done, Some pier_a_flat)) ''buffer_area_m2''
       = Some (PyFloat 0)"
proof -
  have a: "process_feature plane no_faults two_piers_db 3 id_a 0 = (True, flat_db)"
    by (simp add: process_feature_def process_feature_try_def query_def execute_def commit_def
        with_uuid_def example_ids no_faults_def two_piers_db_def two_piers_def flat_db_def
        flat_def pier_a_def pier_b_def pier_a_done_def pier_a_flat_def
        buffer_query_def buffer_rows_def buffered_def plane_def insert_footprint_def
        integer_col_def update_query_def update_row_def)
  have n: "\<not> no_faults SelectFeature"
    by (simp add: no_faults_def)
  have fs: "filter (\<lambda>f. id' f = id_a) (features (working flat_db)) = pier_a_done # []"
    by (simp add: flat_db_def flat_def pier_a_done_def pier_a_def pier_b_def example_ids)
  have fps: "filter (\<lambda>fp. feature_id fp = id_a) (footprints (working flat_db)) = [pier_a_flat]"
    by (simp add: flat_db_def flat_def pier_a_flat_def)
  have b: "get_feature marks no_faults flat_db id_a
       = Inr (Some (feature_dict marks (pier_a_done, Some pier_a_flat)))"
    by (simp add: get_feature_found [where faults = no_faults, OF n example_ids(1) fs] fps)
  have c: "map_of (feature_dict marks (pier_a_done, Some pier_a_flat)) ''buffer_area_m2''
       = Some (PyFloat 0)"
    by (simp add: feature_dict_keys pier_a_flat_def)
  show ?thesis
    by (intro conjI; (rule a b c))
qed

text \<open>
  Claim C1, amended. When \<open>process_feature\<close> returns \<open>True\<close> for the identifier
  \<open>fid\<close> and the radius \<open>r\<close>, the store has read \<open>fid\<close> as a uuid \<open>u\<close> and
  exactly one feature row \<open>f\<close> carries \<open>u\<close>; the call has appended exactly one
  footprint row, with \<open>buffer_m = r\<close>, \<open>geom\<close> the buffer of the point of \<open>f\<close> at
  radius \<open>r\<close> and \<open>area_m2\<close> the area of that buffer; it has set the status of \<open>f\<close>
  to \<open>done\<close>, added one to its attempts and set \<open>updated_at\<close> to the current time,
  leaving every other feature row as it was; and the two changes are committed together
  (the durable tables are the view with both). A \<open>get_feature\<close> of \<open>fid\<close> that the
  store answers then returns status \<open>done\<close>, the attempts plus one (\<open>1\<close> when they
  were \<open>0\<close>), \<open>buffer_m = r\<close> and, as \<open>buffer_area_m2\<close>, the area that \<open>ST_Area\<close>
  gives the buffer (nothing in the code makes it positive).
\<close>

theorem process_feature_success:
  assumes ok: "process_feature pg faults db now fid r = (True, db')"
    and answers: "\<not> faults' SelectFeature"
  shows "\<exists>u f. uuid_param fid = Inr u
           \<and> filter (\<lambda>g. id' g = u) (features (working db)) = [f]
           \<and> footprints (working db')
                = footprints (working db)
                    @ [\<lparr>feature_id = u, buffer_m = r,
                         area_m2 = ST_Area pg (ST_Buffer pg (geom f) r),
                         fp_created_at = now,
                         fp_geom = ST_Buffer pg (geom f) r\<rparr>]
           \<and> features (working db')
                = map (\<lambda>g. if id' g = u
                            then g\<lparr>status := ''done'', updated_at := Some now,
                                   attempts := attempts g + 1\<rparr>
                            else g)
                      (features (working db))
           \<and> committed db' = working db'
           \<and> (\<exists>d. get_feature isoformat faults' db' fid = Inr (Some d)
                  \<and> map_of d ''status'' = Some (PyStr ''done'')
                  \<and> map_of d ''attempts'' = Some (PyInt (attempts f + 1))
                  \<and> map_of d ''buffer_m'' = Some (PyInt r)
                  \<and> map_of d ''buffer_area_m2''
                       = Some (PyFloat (ST_Area pg (ST_Buffer pg (geom f) r))))"
proof -
  from ok have "process_feature_try pg faults db now fid r = Inr (True, db')"
    by (auto simp: process_feature_def split: sum.splits)
  from try_returns_True [OF this] obtain u f where
    u: "uuid_param fid = Inr u"
    and f: "filter (\<lambda>g. id' g = u) (features (working db)) = [f]"
    and fresh: "u \<notin> set (map feature_id (footprints (working db)))"
    and w: "working db' = \<lparr>features = map (mark_done u now) (features (working db)),
                           footprints = footprints (working db) @ [buffered pg u r now f]\<rparr>"
    and c: "committed db' = working db'"
    by blast
  from f have "f \<in> set (filter (\<lambda>g. id' g = u) (features (working db)))"
    by simp
  then have idf: "id' f = u"
    by simp
  have fs': "filter (\<lambda>g. id' g = u) (features (working db')) = mark_done u now f # []"
    by (simp add: w filter_mark_done f)
  have fps': "filter (\<lambda>fp. feature_id fp = u) (footprints (working db'))
                = [buffered pg u r now f]"
    by (simp add: w filter_no_key [OF fresh] buffered_def)
  let ?d = "feature_dict isoformat (mark_done u now f, Some (buffered pg u r now f))"
  have g: "get_feature isoformat faults' db' fid = Inr (Some ?d)"
    by (simp add: get_feature_found [where faults = faults', OF answers u fs'] fps')
  have d1: "map_of ?d ''status'' = Some (PyStr ''done'')"
    by (simp add: feature_dict_keys mark_done_def idf)
  have d2: "map_of ?d ''attempts'' = Some (PyInt (attempts f + 1))"
    by (simp add: feature_dict_keys mark_done_def idf)
  have d3: "map_of ?d ''buffer_m'' = Some (PyInt r)"
    by (simp add: feature_dict_keys buffered_def)
  have d4: "map_of ?d ''buffer_area_m2'' = Some (PyFloat (ST_Area pg (ST_Buffer pg (geom f) r)))"
    by (simp add: feature_dict_keys buffered_def)
  have w1: "footprints (working db')
                = footprints (working db)
                    @ [\<lparr>feature_id = u, buffer_m = r,
                         area_m2 = ST_Area pg (ST_Buffer pg (geom f) r),
                         fp_created_at = now,
                         fp_geom = ST_Buffer pg (geom f) r\<rparr>]"
    by (simp add: w buffered_def)
  have w2: "features (working db')
                = map (\<lambda>g. if id' g = u
                            then g\<lparr>status := ''done'', updated_at := Some now,
                                   attempts := attempts g + 1\<rparr>
                            else g)
                      (features (working db))"
    by (simp add: w mark_done_def [abs_def])
  from u f w1 w2 c g d1 d2 d3 d4 show ?thesis
    by blast
qed

theorem process_feature_success_witness:
  "process_feature plane no_faults two_piers_db 3 id_a 500 = (True, processed_db)
   \<and> \<not> no_faults SelectFeature
   \<and> footprints (working processed_db) = [pier_a_footprint]
   \<and> (\<exists>d. get_feature marks no_faults processed_db id_a = Inr (Some d)
          \<and> map_of d ''status'' = Some (PyStr ''done'')
          \<and> map_of d ''attempts'' = Some (PyInt 1)
          \<and> map_of d ''buffer_m'' = Some (PyInt 500)
          \<and> map_of d ''buffer_area_m2'' = Some (PyFloat 1000000))"
proof -
  note h1 = two_piers_processed
  have h3: "\<not> no_faults SelectFeature"
    by (simp add: no_faults_def)
  have h4: "filter (\<lambda>g. id' g = id_a) (features (working two_piers_db)) = [pier_a]"
    by (simp add: two_piers_db_def two_piers_def pier_a_def pier_b_def example_ids)
  have h5: "attempts pier_a + 1 = 1"
    by (simp add: pier_a_def)
  have h6: "ST_Area plane (ST_Buffer plane (geom pier_a) 500) = 1000000"
    by (simp add: plane_def)
  from process_feature_success [where faults' = no_faults and isoformat = marks, OF h1 h3]
  obtain u f d where
    u: "uuid_param id_a = Inr u"
    and f: "filter (\<lambda>g. id' g = u) (features (working two_piers_db)) = [f]"
    and g: "get_feature marks no_faults processed_db id_a = Inr (Some d)"
    and d: "map_of d ''status'' = Some (PyStr ''done'')"
      "map_of d ''attempts'' = Some (PyInt (attempts f + 1))"
      "map_of d ''buffer_m'' = Some (PyInt 500)"
      "map_of d ''buffer_area_m2'' = Some (PyFloat (ST_Area plane (ST_Buffer plane (geom f) 500)))"
    by blast
  from u have "u = id_a"
    by (simp add: example_ids)
  with f h4 have "f = pier_a"
    by simp
  with g d h5 h6
  have c: "\<exists>d. get_feature marks no_faults processed_db id_a = Inr (Some d)
          \<and> map_of d ''status'' = Some (PyStr ''done'')
          \<and> map_of d ''attempts'' = Some (PyInt 1)
          \<and> map_of d ''buffer_m'' = Some (PyInt 500)
          \<and> map_of d ''buffer_area_m2'' = Some (PyFloat 1000000)"
    by (intro exI [of _ d]) simp
  have e: "footprints (working processed_db) = [pier_a_footprint]"
    by (simp add: processed_db_def processed_def)
  show ?thesis
    by (intro conjI; (rule h1 h3 e c))
qed

section \<open>Processing: failure\<close>

text \<open>
  Claim C2. Whenever an exception leaves the body of the \<open>try\<close> of
  \<open>process_feature\<close>, at whichever call of the session (the check, the insert of the
  footprint, the update of the feature, the commit) and for whichever reason,
  \<open>process_feature\<close> returns \<open>False\<close> as a value, the durable tables are those of
  before the call, the view of the transaction is rolled back to them, and the
  exception is printed with the identifier. The exception does not leave the function.
\<close>

theorem process_feature_failure_rolls_back:
  assumes "process_feature_try pg faults db now fid r = Inl (e, dbe)"
  shows "process_feature pg faults db now fid r =
           (False, \<lparr>committed = committed db, working = committed db,
                    printed = printed db @ [(fid, e)]\<rparr>)"
  using assms try_raises_keeps [OF assms]
  by (simp add: process_feature_def rollback_def)

theorem process_feature_failure_rolls_back_witness:
  "process_feature_try plane (only_fault Commit) two_piers_db 3 id_a 500
     = Inl (OperationalError, two_piers_db\<lparr>working := processed\<rparr>)
   \<and> process_feature plane (only_fault Commit) two_piers_db 3 id_a 500
     = (False, \<lparr>committed = two_piers, working = two_piers,
                 printed = [(id_a, OperationalError)]\<rparr>)"
proof -
  have h: "process_feature_try plane (only_fault Commit) two_piers_db 3 id_a 500
     = Inl (OperationalError, two_piers_db\<lparr>working := processed\<rparr>)"
    by (simp add: process_feature_try_def query_def execute_def commit_def only_fault_def
        with_uuid_def example_ids
        two_piers_db_def two_piers_def processed_def pier_a_def pier_b_def pier_a_done_def
        pier_a_footprint_def buffer_query_def buffer_rows_def buffered_def plane_def
        insert_footprint_def integer_col_def update_query_def update_row_def)
  from process_feature_failure_rolls_back [OF h] h show ?thesis
    by (simp add: two_piers_db_def)
qed

text \<open>
  Claim C3. For an identifier that references no row of \<open>features\<close> (a uuid that no
  row carries, or a text that is no uuid), \<open>process_feature\<close> returns \<open>False\<close> and
  changes neither table: when the store answers the check for a uuid, the session is
  returned exactly as it was; when the store fails the check, or cannot read the
  identifier as a uuid, the handler runs, so the view of the transaction is rolled back
  to the durable tables (which are unchanged) and one line is printed.
\<close>

theorem process_feature_unknown_id:
  assumes "\<forall>u. uuid_param fid = Inr u \<longrightarrow> u \<notin> feature_ids (working db)"
  shows "process_feature pg faults db now fid r =
           (case (if faults SelectId then Inl OperationalError else uuid_param fid) of
              Inl e \<Rightarrow> (False, \<lparr>committed = committed db, working = committed db,
                                printed = printed db @ [(fid, e)]\<rparr>)
            | Inr u \<Rightarrow> (False, db))"
proof (cases "if faults SelectId then Inl OperationalError else uuid_param fid")
  case (Inl e)
  with try_check [of pg faults db now fid r]
  have "process_feature_try pg faults db now fid r = Inl (e, db)"
    by simp
  with Inl show ?thesis
    by (simp add: process_feature_def rollback_def)
next
  case (Inr u)
  then have "uuid_param fid = Inr u"
    by (simp split: if_splits)
  with assms have "u \<notin> feature_ids (working db)"
    by blast
  with Inr try_check [of pg faults db now fid r]
  have "process_feature_try pg faults db now fid r = Inr (False, db)"
    by simp
  with Inr show ?thesis
    by (simp add: process_feature_def)
qed

theorem process_feature_unknown_id_witness:
  "uuid_param id_c = Inr id_c
   \<and> id_c \<notin> feature_ids (working two_piers_db)
   \<and> process_feature plane no_faults two_piers_db 3 id_c 500 = (False, two_piers_db)
   \<and> uuid_param ''zz'' = Inl InvalidTextRepresentation
   \<and> process_feature plane no_faults two_piers_db 3 ''zz'' 500
       = (False, \<lparr>committed = two_piers, working = two_piers,
                   printed = [(''zz'', InvalidTextRepresentation)]\<rparr>)"
proof -
  have h: "id_c \<notin> feature_ids (working two_piers_db)"
    by (simp add: feature_ids_def two_piers_db_def two_piers_def pier_a_def pier_b_def
        example_ids)
  then have h1: "\<forall>u. uuid_param id_c = Inr u \<longrightarrow> u \<notin> feature_ids (working two_piers_db)"
    by (simp add: example_ids)
  have h2: "\<forall>u. uuid_param ''zz'' = Inr u \<longrightarrow> u \<notin> feature_ids (working two_piers_db)"
    by (simp add: example_texts)
  from process_feature_unknown_id [OF h1, of plane no_faults 3 500]
  have a: "process_feature plane no_faults two_piers_db 3 id_c 500 = (False, two_piers_db)"
    by (simp add: no_faults_def example_ids)
  from process_feature_unknown_id [OF h2, of plane no_faults 3 500]
  have b: "process_feature plane no_faults two_piers_db 3 ''zz'' 500
       = (False, \<lparr>committed = two_piers, working = two_piers,
                   printed = [(''zz'', InvalidTextRepresentation)]\<rparr>)"
    by (simp add: no_faults_def example_texts two_piers_db_def)
  show ?thesis
    by (intro conjI; (rule example_ids(3) h a example_texts(2) b))
qed

lemma try_outcomes:
  "(\<exists>e dbe. process_feature_try pg faults db now fid r = Inl (e, dbe))
   \<or> process_feature_try pg faults db now fid r = Inr (False, db)
   \<or> (\<exists>db'. process_feature_try pg faults db now fid r = Inr (True, db'))"
proof (cases "process_feature_try pg faults db now fid r")
  case (Inl a)
  then show ?thesis by (cases a) simp
next
  case (Inr b)
  then show ?thesis
    by (cases b) (auto dest: try_returns_False)
qed

lemma try_conflict:
  assumes parsed: "uuid_param fid = Inr u"
    and has: "u \<in> footprint_ids (working db)"
    and exists: "u \<in> feature_ids (working db)"
    and "\<not> faults SelectId" and "\<not> faults InsertFootprint"
    and "- 2147483648 \<le> r" and "r \<le> 2147483647"
  shows "process_feature_try pg faults db now fid r = Inl (UniqueViolation, db)"
proof -
  from exists obtain f others where
    fs: "filter (\<lambda>f. id' f = u) (features (working db)) = f # others"
    by (cases "filter (\<lambda>f. id' f = u) (features (working db))")
       (auto simp: feature_ids_def filter_empty_conv)
  have "buffer_query pg u r now (working db) = Inl UniqueViolation"
    using has assms(6,7)
    by (simp add: buffer_query_def buffer_rows_def fs insert_footprint_def integer_col_def
        buffered_def footprint_ids_def)
  with assms(4,5) fs show ?thesis
    by (simp add: process_feature_try_def query_def execute_def with_uuid_param [OF parsed])
qed

text \<open>
  Claim C9. For a feature that already has a footprint row, \<open>process_feature\<close> returns
  \<open>False\<close>, the durable tables are unchanged, and the view of the transaction is
  either untouched or rolled back to the durable tables (the same thing for a session
  with nothing pending, as a successful \<open>process_feature\<close> leaves it). When the store
  answers the check and takes the insert, and the radius fits the \<open>Integer\<close> column,
  the exception is the primary-key conflict of the second footprint row, raised by the
  insert. \<open>u\<close> is the uuid that the identifier \<open>fid\<close> is read as.
\<close>

theorem process_feature_again:
  assumes parsed: "uuid_param fid = Inr u"
    and has: "u \<in> footprint_ids (working db)"
  shows "fst (process_feature pg faults db now fid r) = False
         \<and> committed (snd (process_feature pg faults db now fid r)) = committed db
         \<and> (working (snd (process_feature pg faults db now fid r)) = working db
              \<or> working (snd (process_feature pg faults db now fid r)) = committed db)
         \<and> (u \<in> feature_ids (working db) \<and> \<not> faults SelectId \<and> \<not> faults InsertFootprint
              \<and> - 2147483648 \<le> r \<and> r \<le> 2147483647 \<longrightarrow>
              process_feature pg faults db now fid r
                = (False, \<lparr>committed = committed db, working = committed db,
                            printed = printed db @ [(fid, UniqueViolation)]\<rparr>))"
proof -
  let ?res = "process_feature pg faults db now fid r"
  have no: "\<And>db'. process_feature_try pg faults db now fid r \<noteq> Inr (True, db')"
    using parsed has try_returns_True [of pg faults db now fid r]
    by (auto simp: footprint_ids_def)
  from try_outcomes [of pg faults db now fid r] no
  consider (raised) e dbe where "process_feature_try pg faults db now fid r = Inl (e, dbe)"
    | (unknown) "process_feature_try pg faults db now fid r = Inr (False, db)"
    by blast
  then have a: "fst ?res = False \<and> committed (snd ?res) = committed db
      \<and> (working (snd ?res) = working db \<or> working (snd ?res) = committed db)"
  proof cases
    case raised
    from try_raises_keeps [OF raised] raised show ?thesis
      by (simp add: process_feature_def rollback_def)
  next
    case unknown
    then show ?thesis
      by (simp add: process_feature_def)
  qed
  have b: "u \<in> feature_ids (working db) \<and> \<not> faults SelectId \<and> \<not> faults InsertFootprint
              \<and> - 2147483648 \<le> r \<and> r \<le> 2147483647 \<longrightarrow>
              ?res = (False, \<lparr>committed = committed db, working = committed db,
                            printed = printed db @ [(fid, UniqueViolation)]\<rparr>)"
  proof
    assume h: "u \<in> feature_ids (working db) \<and> \<not> faults SelectId \<and> \<not> faults InsertFootprint
              \<and> - 2147483648 \<le> r \<and> r \<le> 2147483647"
    then have "process_feature_try pg faults db now fid r = Inl (UniqueViolation, db)"
      using try_conflict [OF parsed has, of faults r pg now] by blast
    then show "?res = (False, \<lparr>committed = committed db, working = committed db,
                            printed = printed db @ [(fid, UniqueViolation)]\<rparr>)"
      by (simp add: process_feature_def rollback_def)
  qed
  from a b show ?thesis
    by blast
qed

theorem process_feature_again_witness:
  "uuid_param id_a = Inr id_a
   \<and> id_a \<in> footprint_ids (working processed_db)
   \<and> process_feature plane no_faults processed_db 4 id_a 500
       = (False, \<lparr>committed = processed, working = processed,
                   printed = [(id_a, UniqueViolation)]\<rparr>)"
proof -
  have h: "id_a \<in> footprint_ids (working processed_db)"
    by (simp add: footprint_ids_def processed_db_def processed_def pier_a_footprint_def)
  have e: "id_a \<in> feature_ids (working processed_db)"
    by (simp add: feature_ids_def processed_db_def processed_def pier_a_done_def pier_a_def)
  from process_feature_again [OF example_ids(1) h, of plane no_faults 4 500] e
  have c: "process_feature plane no_faults processed_db 4 id_a 500
       = (False, \<lparr>committed = processed, working = processed,
                   printed = [(id_a, UniqueViolation)]\<rparr>)"
    by (simp add: no_faults_def processed_db_def)
  show ?thesis
    by (intro conjI; (rule example_ids(1) h c))
qed

section \<open>Fetching by identifier\<close>

lemma filter_id_empty:
  "fid \<notin> feature_ids t \<longleftrightarrow> filter (\<lambda>f. id' f = fid) (features t) = []"
  by (auto simp: feature_ids_def filter_empty_conv)





section \<open>Nearby search\<close>

lemma join_row_nonempty: "join_row fps f \<noteq> []"
  by (simp add: join_row_def split: list.splits)

lemma fst_set_join_row: "fst ` set (join_row fps f) = {f}"
proof -
  from join_row_nonempty [of fps f] obtain x where "x \<in> set (join_row fps f)"
    by (cases "join_row fps f") auto
  then show ?thesis
    by (auto dest: join_row_fst simp: image_iff)
qed

lemma left_join_features: "fst ` set (left_join t) = set (features t)"
proof -
  have "fst ` set (left_join t) = (\<Union>f \<in> set (features t). fst ` set (join_row (footprints t) f))"
    by (auto simp: left_join_def)
  then show ?thesis
    by (simp add: fst_set_join_row)
qed

lemma near_query_set:
  "set (near_query pg lat lon r t)
     = (\<lambda>x. (x, ST_Distance pg (geom (fst x)) (ST_MakePoint pg lon lat)))
         ` {x \<in> set (left_join t). ST_DWithin pg (geom (fst x)) (ST_MakePoint pg lon lat) r}"
  by (auto simp: near_query_def case_prod_beta)

lemma near_query_sorted: "sorted (map snd (near_query pg lat lon r t))"
  by (simp add: near_query_def)

lemma near_dict_keys:
  "map_of (near_dict isoformat (x, d)) ''id'' = Some (PyStr (id' (fst x)))"
  "map_of (near_dict isoformat (x, d)) ''distance_m''
     = Some (if d \<noteq> 0 then PyFloat d else PyNone)"
  by (cases x; simp add: near_dict_def feature_dict_def)+

lemma two_piers_join: "left_join (working two_piers_db) = [(pier_a, None), (pier_b, None)]"
  by (simp add: left_join_def join_row_def two_piers_db_def two_piers_def)

lemma two_piers_near_1:
  "near_query plane 45 (- 73) 1 (working two_piers_db)
     = [pier_a_near, pier_b_near]"
  by (simp add: near_query_def two_piers_join plane_def pier_a_def pier_b_def
      pier_a_near_def pier_b_near_def)

lemma two_piers_near_0:
  "near_query plane 45 (- 73) 0 (working two_piers_db) = [pier_a_near]"
  by (simp add: near_query_def two_piers_join plane_def pier_a_def pier_b_def
      pier_a_near_def pier_b_near_def)

lemma near_query_mono:
  assumes "radius_monotone pg" and "r1 \<le> r2"
  shows "set (near_query pg lat lon r1 t) \<subseteq> set (near_query pg lat lon r2 t)"
proof -
  from assms have "\<And>p q. ST_DWithin pg p q r1 \<Longrightarrow> ST_DWithin pg p q r2"
    unfolding radius_monotone_def by blast
  then show ?thesis
    by (auto simp: near_query_set)
qed

text \<open>
  Claim C5. What \<open>features_near\<close> returns when the store answers: one dictionary for
  each joined row whose point passes \<open>ST_DWithin\<close> for the query point and the radius,
  and no other; in ascending order of \<open>ST_Distance\<close> to the query point; the empty
  list exactly when no feature passes. The annotation \<open>distance_m\<close> is the distance
  only when the distance is not zero: for a row at distance \<open>0\<close> it is \<open>None\<close>,
  where the claim has the distance. The example is a search of radius \<open>1\<close> at the
  point of the first of two stored features.
\<close>

theorem features_near_result:
  assumes answers: "\<not> faults SelectNear"
  shows "\<exists>rows. features_near pg isoformat faults db lat lon r = Inr (map (near_dict isoformat) rows)
           \<and> set rows
                = (\<lambda>x. (x, ST_Distance pg (geom (fst x)) (ST_MakePoint pg lon lat)))
                    ` {x \<in> set (left_join (working db)).
                         ST_DWithin pg (geom (fst x)) (ST_MakePoint pg lon lat) r}
           \<and> sorted (map snd rows)
           \<and> (\<forall>row \<in> set rows.
                  map_of (near_dict isoformat row) ''id'' = Some (PyStr (id' (fst (fst row))))
                  \<and> map_of (near_dict isoformat row) ''distance_m''
                       = Some (if snd row \<noteq> 0 then PyFloat (snd row) else PyNone))
           \<and> (rows = [] \<longleftrightarrow>
                  \<not> (\<exists>f \<in> set (features (working db)).
                        ST_DWithin pg (geom f) (ST_MakePoint pg lon lat) r))"
proof -
  let ?rows = "near_query pg lat lon r (working db)"
  have a: "features_near pg isoformat faults db lat lon r = Inr (map (near_dict isoformat) ?rows)"
    using answers by (simp add: features_near_def query_def)
  have d: "\<forall>row \<in> set ?rows.
                  map_of (near_dict isoformat row) ''id'' = Some (PyStr (id' (fst (fst row))))
                  \<and> map_of (near_dict isoformat row) ''distance_m''
                       = Some (if snd row \<noteq> 0 then PyFloat (snd row) else PyNone)"
  proof
    fix row assume "row \<in> set ?rows"
    obtain x dd where row: "row = (x, dd)" by (cases row)
    show "map_of (near_dict isoformat row) ''id'' = Some (PyStr (id' (fst (fst row))))
                  \<and> map_of (near_dict isoformat row) ''distance_m''
                       = Some (if snd row \<noteq> 0 then PyFloat (snd row) else PyNone)"
      unfolding row by (simp only: near_dict_keys fst_conv snd_conv simp_thms)
  qed
  have "(?rows = []) = (set ?rows = {})"
    by simp
  also have "\<dots> = ({x \<in> set (left_join (working db)).
                         ST_DWithin pg (geom (fst x)) (ST_MakePoint pg lon lat) r} = {})"
    by (simp only: near_query_set image_is_empty)
  also have "\<dots> = (\<not> (\<exists>f \<in> fst ` set (left_join (working db)).
                        ST_DWithin pg (geom f) (ST_MakePoint pg lon lat) r))"
    by auto
  finally have e: "(?rows = []) = (\<not> (\<exists>f \<in> set (features (working db)).
                        ST_DWithin pg (geom f) (ST_MakePoint pg lon lat) r))"
    by (simp only: left_join_features)
  from a near_query_set [of pg lat lon r "working db"] near_query_sorted [of pg lat lon r "working db"] d e
  show ?thesis
    by (intro exI [of _ ?rows] conjI)
qed

theorem features_near_result_witness:
  "\<not> no_faults SelectNear
   \<and> features_near plane marks no_faults two_piers_db 45 (- 73) 1
       = Inr [near_dict marks pier_a_near, near_dict marks pier_b_near]
   \<and> map_of (near_dict marks pier_a_near) ''id'' = Some (PyStr id_a)
   \<and> map_of (near_dict marks pier_a_near) ''distance_m'' = Some PyNone
   \<and> map_of (near_dict marks pier_b_near) ''distance_m'' = Some (PyFloat 1)"
proof -
  have h: "\<not> no_faults SelectNear"
    by (simp add: no_faults_def)
  from features_near_result [where faults = no_faults and pg = plane and isoformat = marks
      and db = two_piers_db and lat = 45 and lon = "- 73" and r = 1, OF h]
  obtain rows where
    s: "set rows
          = (\<lambda>x. (x, ST_Distance plane (geom (fst x)) (ST_MakePoint plane (- 73) 45)))
              ` {x \<in> set (left_join (working two_piers_db)).
                   ST_DWithin plane (geom (fst x)) (ST_MakePoint plane (- 73) 45) 1}"
    and d: "\<forall>row \<in> set rows.
              map_of (near_dict marks row) ''id'' = Some (PyStr (id' (fst (fst row))))
              \<and> map_of (near_dict marks row) ''distance_m''
                   = Some (if snd row \<noteq> 0 then PyFloat (snd row) else PyNone)"
    by blast
  from s have "set rows = set (near_query plane 45 (- 73) 1 (working two_piers_db))"
    by (simp only: near_query_set)
  then have m: "pier_a_near \<in> set rows" "pier_b_near \<in> set rows"
    by (simp_all add: two_piers_near_1)
  from d m(1) have a: "map_of (near_dict marks pier_a_near) ''id'' = Some (PyStr id_a)
      \<and> map_of (near_dict marks pier_a_near) ''distance_m'' = Some PyNone"
    by (fastforce simp: pier_a_def pier_a_near_def)
  from d m(2) have b: "map_of (near_dict marks pier_b_near) ''distance_m'' = Some (PyFloat 1)"
    by (fastforce simp: pier_b_near_def)
  have e: "features_near plane marks no_faults two_piers_db 45 (- 73) 1
       = Inr [near_dict marks pier_a_near, near_dict marks pier_b_near]"
    using h by (simp add: features_near_def query_def two_piers_near_1)
  from h e a b show ?thesis
    by (intro conjI) simp_all
qed

text \<open>
  Claim C6. A feature stored at exactly the query point is among the results of a search
  of radius \<open>0\<close> there (for a store that finds a point within radius \<open>0\<close> of itself,
  at distance \<open>0\<close>), but its \<open>distance_m\<close> is \<open>None\<close>, where the claim has \<open>0\<close>:
  \<open>float(result.distance_m) if result.distance_m else None\<close> takes the distance
  \<open>0.0\<close> for a missing one.
\<close>

theorem features_near_exact_match:
  assumes answers: "\<not> faults SelectNear"
    and stored: "f \<in> set (features (working db))"
    and same: "geom f = ST_MakePoint pg lon lat"
    and self: "\<forall>p. ST_DWithin pg p p 0 \<and> ST_Distance pg p p = 0"
  shows "\<exists>ds d. features_near pg isoformat faults db lat lon 0 = Inr ds
           \<and> d \<in> set ds
           \<and> map_of d ''id'' = Some (PyStr (id' f))
           \<and> map_of d ''distance_m'' = Some PyNone"
proof -
  let ?rows = "near_query pg lat lon 0 (working db)"
  from stored left_join_features [of "working db"] obtain x where
    x: "x \<in> set (left_join (working db))" and fx: "fst x = f"
    by (metis (no_types, lifting) imageE)
  from x fx same self have "(x, 0) \<in> set ?rows"
    by (simp add: near_query_set image_iff)
  then have m: "near_dict isoformat (x, 0) \<in> set (map (near_dict isoformat) ?rows)"
    by (simp only: set_map) (rule imageI)
  have a: "features_near pg isoformat faults db lat lon 0 = Inr (map (near_dict isoformat) ?rows)"
    using answers by (simp add: features_near_def query_def)
  have k1: "map_of (near_dict isoformat (x, 0)) ''id'' = Some (PyStr (id' f))"
    by (simp add: near_dict_keys fx)
  have k2: "map_of (near_dict isoformat (x, 0)) ''distance_m'' = Some PyNone"
    by (simp add: near_dict_keys)
  from a m k1 k2 show ?thesis
    by blast
qed


theorem features_near_exact_match_witness:
  "\<not> no_faults SelectNear
   \<and> pier_a \<in> set (features (working two_piers_db))
   \<and> geom pier_a = ST_MakePoint plane (- 73) 45
   \<and> (\<forall>p. ST_DWithin plane p p 0 \<and> ST_Distance plane p p = 0)
   \<and> (\<exists>ds d. features_near plane marks no_faults two_piers_db 45 (- 73) 0 = Inr ds
          \<and> d \<in> set ds
          \<and> map_of d ''id'' = Some (PyStr id_a)
          \<and> map_of d ''distance_m'' = Some PyNone)"
proof -
  have h1: "\<not> no_faults SelectNear"
    by (simp add: no_faults_def)
  have h2: "pier_a \<in> set (features (working two_piers_db))"
    by (simp add: two_piers_db_def two_piers_def)
  have h3: "geom pier_a = ST_MakePoint plane (- 73) 45"
    by (simp add: pier_a_def plane_def)
  have h4: "\<forall>p. ST_DWithin plane p p 0 \<and> ST_Distance plane p p = 0"
    by (simp add: plane_def)
  have i: "id' pier_a = id_a"
    by (simp add: pier_a_def)
  from features_near_exact_match [where faults = no_faults and isoformat = marks,
      OF h1 h2 h3 h4]
  have c: "\<exists>ds d. features_near plane marks no_faults two_piers_db 45 (- 73) 0 = Inr ds
          \<and> d \<in> set ds
          \<and> map_of d ''id'' = Some (PyStr id_a)
          \<and> map_of d ''distance_m'' = Some PyNone"
    by (simp only: i)
  show ?thesis
    by (intro conjI; (rule h1 h2 h3 h4 c))
qed

text \<open>
  Claim C7. On the same tables, for radii \<open>r1 \<le> r2\<close> and a store whose \<open>ST_DWithin\<close>
  is monotone in the radius, every dictionary that \<open>features_near\<close> returns for
  \<open>r1\<close> is returned for \<open>r2\<close> (both searches answered by the store).
\<close>

theorem features_near_monotone:
  assumes mono: "radius_monotone pg"
    and le: "r1 \<le> r2"
    and answers: "\<not> faults SelectNear \<and> \<not> faults' SelectNear"
  shows "\<exists>ds1 ds2. features_near pg isoformat faults db lat lon r1 = Inr ds1
           \<and> features_near pg isoformat faults' db lat lon r2 = Inr ds2
           \<and> set ds1 \<subseteq> set ds2"
proof -
  have a: "features_near pg isoformat faults db lat lon r1
             = Inr (map (near_dict isoformat) (near_query pg lat lon r1 (working db)))"
    using answers by (simp add: features_near_def query_def)
  have b: "features_near pg isoformat faults' db lat lon r2
             = Inr (map (near_dict isoformat) (near_query pg lat lon r2 (working db)))"
    using answers by (simp add: features_near_def query_def)
  have c: "set (map (near_dict isoformat) (near_query pg lat lon r1 (working db)))
             \<subseteq> set (map (near_dict isoformat) (near_query pg lat lon r2 (working db)))"
    using near_query_mono [OF mono le, of lat lon "working db"]
    by (simp only: set_map) (rule image_mono)
  from a b c show ?thesis
    by blast
qed

theorem features_near_monotone_witness:
  "radius_monotone plane
   \<and> (0 :: int) \<le> 1
   \<and> \<not> no_faults SelectNear
   \<and> features_near plane marks no_faults two_piers_db 45 (- 73) 0
       = Inr [near_dict marks pier_a_near]
   \<and> features_near plane marks no_faults two_piers_db 45 (- 73) 1
       = Inr [near_dict marks pier_a_near, near_dict marks pier_b_near]
   \<and> set [near_dict marks pier_a_near]
       \<subseteq> set [near_dict marks pier_a_near,
               near_dict marks pier_b_near]"
proof -
  have h1: "radius_monotone plane"
    by (simp add: radius_monotone_def plane_def)
  have h2: "(0 :: int) \<le> 1"
    by simp
  have h3: "\<not> no_faults SelectNear \<and> \<not> no_faults SelectNear"
    by (simp add: no_faults_def)
  have e0: "features_near plane marks no_faults two_piers_db 45 (- 73) 0
       = Inr [near_dict marks pier_a_near]"
    using h3 by (simp add: features_near_def query_def two_piers_near_0)
  have e1: "features_near plane marks no_faults two_piers_db 45 (- 73) 1
       = Inr [near_dict marks pier_a_near, near_dict marks pier_b_near]"
    using h3 by (simp add: features_near_def query_def two_piers_near_1)
  from features_near_monotone [where faults = no_faults and faults' = no_faults
      and isoformat = marks and db = two_piers_db and lat = 45 and lon = "- 73",
      OF h1 h2 h3]
  have c: "set [near_dict marks pier_a_near]
       \<subseteq> set [near_dict marks pier_a_near,
               near_dict marks pier_b_near]"
    by (simp only: e0 e1 sum.inject) blast
  show ?thesis
    by (intro conjI; (rule h1 h2 h3 [THEN conjunct1] e0 e1 c))
qed


section \<open>The footprints of the reachable sessions\<close>

lemma consistent_more_features:
  assumes "footprint_consistent pg t"
  shows "footprint_consistent pg (t\<lparr>features := features t @ [row]\<rparr>)"
  using assms unfolding footprint_consistent_def by fastforce

lemma consistent_processed:
  assumes inv: "footprint_consistent pg t"
    and f: "f \<in> set (features t)" and idf: "id' f = fid"
  shows "footprint_consistent pg
           \<lparr>features = map (mark_done fid now) (features t),
            footprints = footprints t @ [buffered pg fid r now f]\<rparr>"
proof -
  have keep: "\<And>g. g \<in> set (features t) \<Longrightarrow>
      mark_done fid now g \<in> set (map (mark_done fid now) (features t))
      \<and> id' (mark_done fid now g) = id' g \<and> geom (mark_done fid now g) = geom g"
    by (simp add: mark_done_def)
  show ?thesis
    unfolding footprint_consistent_def
  proof
    fix fp
    assume "fp \<in> set (footprints \<lparr>features = map (mark_done fid now) (features t),
            footprints = footprints t @ [buffered pg fid r now f]\<rparr>)"
    then consider (old) "fp \<in> set (footprints t)" | (new) "fp = buffered pg fid r now f"
      by auto
    then show "area_m2 fp = ST_Area pg (fp_geom fp)
        \<and> (\<exists>g \<in> set (features \<lparr>features = map (mark_done fid now) (features t),
            footprints = footprints t @ [buffered pg fid r now f]\<rparr>).
              id' g = feature_id fp \<and> fp_geom fp = ST_Buffer pg (geom g) (buffer_m fp))"
    proof cases
      case old
      with inv obtain g where a: "area_m2 fp = ST_Area pg (fp_geom fp)"
        and g: "g \<in> set (features t)" "id' g = feature_id fp"
          "fp_geom fp = ST_Buffer pg (geom g) (buffer_m fp)"
        unfolding footprint_consistent_def by blast
      from keep [OF g(1)] g(2,3) a show ?thesis
        by (intro conjI bexI [of _ "mark_done fid now g"]) simp_all
    next
      case new
      from keep [OF f] idf new show ?thesis
        by (intro conjI bexI [of _ "mark_done fid now f"]) (simp_all add: buffered_def)
    qed
  qed
qed

lemma create_feature_outcomes:
  "snd (create_feature pg faults db fid now name_arg lat lon) = db
   \<or> (\<exists>row. working (snd (create_feature pg faults db fid now name_arg lat lon))
                = (working db)\<lparr>features := features (working db) @ [row]\<rparr>
             \<and> (committed (snd (create_feature pg faults db fid now name_arg lat lon)) = committed db
                  \<or> committed (snd (create_feature pg faults db fid now name_arg lat lon))
                       = (working db)\<lparr>features := features (working db) @ [row]\<rparr>))"
  by (auto simp: create_feature_def execute_def commit_def insert_feature_def
      split: sum.splits if_splits)

lemma process_feature_outcomes:
  "snd (process_feature pg faults db now fid r) = db
   \<or> (working (snd (process_feature pg faults db now fid r)) = committed db
       \<and> committed (snd (process_feature pg faults db now fid r)) = committed db)
   \<or> (\<exists>u f. f \<in> set (features (working db)) \<and> id' f = u
          \<and> working (snd (process_feature pg faults db now fid r))
               = \<lparr>features = map (mark_done u now) (features (working db)),
                  footprints = footprints (working db) @ [buffered pg u r now f]\<rparr>
          \<and> committed (snd (process_feature pg faults db now fid r))
               = \<lparr>features = map (mark_done u now) (features (working db)),
                  footprints = footprints (working db) @ [buffered pg u r now f]\<rparr>)"
proof -
  from try_outcomes [of pg faults db now fid r]
  consider (raised) e dbe where "process_feature_try pg faults db now fid r = Inl (e, dbe)"
    | (unknown) "process_feature_try pg faults db now fid r = Inr (False, db)"
    | (succeeded) db' where "process_feature_try pg faults db now fid r = Inr (True, db')"
    by blast
  then show ?thesis
  proof cases
    case raised
    from try_raises_keeps [OF raised] raised show ?thesis
      by (simp add: process_feature_def rollback_def)
  next
    case unknown
    then show ?thesis
      by (simp add: process_feature_def)
  next
    case succeeded
    from try_returns_True [OF succeeded] obtain u f where
      f: "filter (\<lambda>g. id' g = u) (features (working db)) = [f]"
      and w: "working db' = \<lparr>features = map (mark_done u now) (features (working db)),
                             footprints = footprints (working db) @ [buffered pg u r now f]\<rparr>"
      and c: "committed db' = working db'"
      by blast
    from f have "f \<in> set (filter (\<lambda>g. id' g = u) (features (working db)))"
      by simp
    then have m: "f \<in> set (features (working db)) \<and> id' f = u"
      by simp
    have s: "snd (process_feature pg faults db now fid r) = db'"
      using succeeded by (simp add: process_feature_def)
    from m w c show ?thesis
      unfolding s by (intro disjI2 exI [of _ u] exI [of _ f]) simp
  qed
qed

lemma reachable_consistent:
  "reachable pg db \<Longrightarrow>
     footprint_consistent pg (working db) \<and> footprint_consistent pg (committed db)"
proof (induction rule: reachable.induct)
  case start
  show ?case
    by (simp add: footprint_consistent_def)
next
  case (create db faults fid current_time name_arg lat lon)
  let ?db' = "snd (create_feature pg faults db fid current_time name_arg lat lon)"
  from create_feature_outcomes [of pg faults db fid current_time name_arg lat lon]
  consider (same) "?db' = db"
    | (added) row where "working ?db' = (working db)\<lparr>features := features (working db) @ [row]\<rparr>"
        "committed ?db' = committed db
           \<or> committed ?db' = (working db)\<lparr>features := features (working db) @ [row]\<rparr>"
    by blast
  then show ?case
  proof cases
    case same
    with create.IH show ?thesis by simp
  next
    case added
    from create.IH have "footprint_consistent pg ((working db)\<lparr>features := features (working db) @ [row]\<rparr>)"
      by (simp add: consistent_more_features)
    with added create.IH show ?thesis
      by auto
  qed
next
  case (process db faults current_time fid r)
  let ?db' = "snd (process_feature pg faults db current_time fid r)"
  from process_feature_outcomes [of pg faults db current_time fid r]
  consider (same) "?db' = db"
    | (rolled) "working ?db' = committed db" "committed ?db' = committed db"
    | (succeeded) u f where "f \<in> set (features (working db))" "id' f = u"
        "working ?db' = \<lparr>features = map (mark_done u current_time) (features (working db)),
                  footprints = footprints (working db) @ [buffered pg u r current_time f]\<rparr>"
        "committed ?db' = \<lparr>features = map (mark_done u current_time) (features (working db)),
                  footprints = footprints (working db) @ [buffered pg u r current_time f]\<rparr>"
    by blast
  then show ?case
  proof cases
    case same
    with process.IH show ?thesis by simp
  next
    case rolled
    with process.IH show ?thesis by simp
  next
    case succeeded
    from process.IH have "footprint_consistent pg (working db)"
      by simp
    from consistent_processed [OF this succeeded(1,2), of current_time r] succeeded(3,4)
    show ?thesis
      by simp
  qed
qed

lemma reachable_empty_db: "reachable plane empty_db"
  unfolding empty_db_def empty_tables_def by (rule reachable.start)

lemma reachable_two_piers_db: "reachable plane two_piers_db"
proof -
  let ?db1 = "snd (create_feature plane no_faults empty_db id_a 1 ''Pier A'' 45 (- 73))"
  have r1: "reachable plane ?db1"
    by (rule reachable.create [OF reachable_empty_db])
  have "reachable plane (snd (create_feature plane no_faults ?db1 id_b 2 ''Pier B'' 46 (- 73)))"
    by (rule reachable.create [OF r1])
  also have "snd (create_feature plane no_faults ?db1 id_b 2 ''Pier B'' 46 (- 73)) = two_piers_db"
    by (simp add: create_feature_def execute_def commit_def insert_feature_def varchar_col_def
        text_param_def example_ids
        no_faults_def empty_db_def empty_tables_def two_piers_db_def two_piers_def pier_a_def
        pier_b_def plane_def)
  finally show ?thesis .
qed

lemma reachable_processed_db: "reachable plane processed_db"
proof -
  have "reachable plane (snd (process_feature plane no_faults two_piers_db 3 id_a 500))"
    by (rule reachable.process [OF reachable_two_piers_db])
  then show ?thesis
    by (simp add: two_piers_processed)
qed

text \<open>
  Claim C10. In every session that calls of \<open>create_feature\<close> and
  \<open>process_feature\<close> produce from the empty store, in the durable tables and in the
  view of the transaction alike, the \<open>area_m2\<close> of every footprint row is the area of
  its \<open>geom\<close>, and its \<open>geom\<close> is the buffer of the point of its feature at its
  \<open>buffer_m\<close>: the insert computes both from the same buffer, no statement changes a
  footprint row, and the update of the feature leaves its identifier and its point.
\<close>

theorem footprint_area_consistent:
  assumes "reachable pg db"
    and "fp \<in> set (footprints (committed db)) \<or> fp \<in> set (footprints (working db))"
  shows "area_m2 fp = ST_Area pg (fp_geom fp)
         \<and> (\<exists>f. (f \<in> set (features (committed db)) \<or> f \<in> set (features (working db)))
                \<and> id' f = feature_id fp
                \<and> fp_geom fp = ST_Buffer pg (geom f) (buffer_m fp)
                \<and> area_m2 fp = ST_Area pg (ST_Buffer pg (geom f) (buffer_m fp)))"
proof -
  from reachable_consistent [OF assms(1)]
  have w: "footprint_consistent pg (working db)" and c: "footprint_consistent pg (committed db)"
    by simp_all
  from assms(2) show ?thesis
  proof
    assume "fp \<in> set (footprints (committed db))"
    with c show ?thesis
      unfolding footprint_consistent_def by fastforce
  next
    assume "fp \<in> set (footprints (working db))"
    with w show ?thesis
      unfolding footprint_consistent_def by fastforce
  qed
qed


theorem footprint_area_consistent_witness:
  "reachable plane processed_db
   \<and> pier_a_footprint \<in> set (footprints (committed processed_db))
   \<and> area_m2 pier_a_footprint = ST_Area plane (fp_geom pier_a_footprint)
   \<and> fp_geom pier_a_footprint = ST_Buffer plane (geom pier_a_done) (buffer_m pier_a_footprint)"
proof -
  have h2: "pier_a_footprint \<in> set (footprints (committed processed_db))"
    by (simp add: processed_db_def processed_def)
  then have h2': "pier_a_footprint \<in> set (footprints (committed processed_db))
      \<or> pier_a_footprint \<in> set (footprints (working processed_db))"
    by (rule disjI1)
  from footprint_area_consistent [OF reachable_processed_db h2']
  have a: "area_m2 pier_a_footprint = ST_Area plane (fp_geom pier_a_footprint)"
    by (rule conjunct1)
  have b: "fp_geom pier_a_footprint = ST_Buffer plane (geom pier_a_done) (buffer_m pier_a_footprint)"
    by (simp add: pier_a_footprint_def pier_a_done_def pier_a_def plane_def)
  show ?thesis
    by (intro conjI; (rule reachable_processed_db h2 a b))
qed


section \<open>Creating a feature\<close>

lemma consistent_foreign_key:
  assumes "footprint_consistent pg t"
  shows "footprint_ids t \<subseteq> feature_ids t"
proof
  fix x
  assume "x \<in> footprint_ids t"
  then obtain fp where fp: "fp \<in> set (footprints t)" and x: "x = feature_id fp"
    by (auto simp: footprint_ids_def)
  from assms fp obtain f where f: "f \<in> set (features t)" and i: "id' f = feature_id fp"
    unfolding footprint_consistent_def by blast
  from f have "id' f \<in> feature_ids t"
    by (simp add: feature_ids_def)
  with i x show "x \<in> feature_ids t"
    by simp
qed

lemma reachable_foreign_key:
  assumes "reachable pg db"
  shows "footprint_ids (working db) \<subseteq> feature_ids (working db)"
proof -
  from reachable_consistent [OF assms] have "footprint_consistent pg (working db)"
    by simp
  then show ?thesis
    by (rule consistent_foreign_key)
qed

lemma two_piers_created:
  "create_feature plane no_faults empty_db id_a 1 ''Pier A'' 45 (- 73)
     = (Inr id_a, \<lparr>committed = \<lparr>features = [pier_a], footprints = []\<rparr>,
                    working = \<lparr>features = [pier_a], footprints = []\<rparr>, printed = []\<rparr>)"
  by (simp add: create_feature_def execute_def commit_def insert_feature_def varchar_col_def
      text_param_def no_faults_def empty_db_def empty_tables_def pier_a_def plane_def)

text \<open>
  Claim C8, as stated, fails in four ways, each an exception that leaves
  \<open>create_feature\<close> with no row inserted and no identifier returned: a name that the
  \<open>String(200)\<close> column refuses for its length; a name with the character NUL; an
  identifier from \<open>uuid4\<close> that a feature row already carries, which the primary key
  refuses; a failure of the store at the insert. And the fetch of the new identifier
  raises when the store fails the query.
\<close>

theorem create_feature_raises_counterexample:
  "create_feature plane no_faults empty_db id_a 1 (replicate 201 CHR ''a'') 45 (- 73)
     = (Inl StringDataRightTruncation, empty_db)
   \<and> create_feature plane no_faults empty_db id_a 1 [CHR ''a'', CHR 0x00, CHR ''b''] 45 (- 73)
     = (Inl NulCharacter, empty_db)
   \<and> create_feature plane no_faults two_piers_db id_a 3 ''Pier C'' 47 (- 73)
     = (Inl UniqueViolation, two_piers_db)
   \<and> create_feature plane (only_fault InsertFeature) empty_db id_a 1 ''Pier A'' 45 (- 73)
     = (Inl OperationalError, empty_db)
   \<and> get_feature marks (only_fault SelectFeature)
         (snd (create_feature plane no_faults empty_db id_a 1 ''Pier A'' 45 (- 73))) id_a
     = Inl OperationalError"
proof -
  have a: "create_feature plane no_faults empty_db id_a 1 (replicate 201 CHR ''a'') 45 (- 73)
     = (Inl StringDataRightTruncation, empty_db)"
    by (simp add: create_feature_def execute_def insert_feature_def varchar_col_def
        text_param_def no_faults_def empty_db_def)
  have b: "create_feature plane no_faults empty_db id_a 1 [CHR ''a'', CHR 0x00, CHR ''b''] 45 (- 73)
     = (Inl NulCharacter, empty_db)"
    by (simp add: create_feature_def execute_def insert_feature_def varchar_col_def
        text_param_def no_faults_def empty_db_def)
  have c: "create_feature plane no_faults two_piers_db id_a 3 ''Pier C'' 47 (- 73)
     = (Inl UniqueViolation, two_piers_db)"
    by (simp add: create_feature_def execute_def insert_feature_def varchar_col_def
        text_param_def no_faults_def two_piers_db_def two_piers_def pier_a_def)
  have d: "create_feature plane (only_fault InsertFeature) empty_db id_a 1 ''Pier A'' 45 (- 73)
     = (Inl OperationalError, empty_db)"
    by (simp add: create_feature_def execute_def only_fault_def)
  have e: "get_feature marks (only_fault SelectFeature)
         (snd (create_feature plane no_faults empty_db id_a 1 ''Pier A'' 45 (- 73))) id_a
     = Inl OperationalError"
    by (simp add: get_feature_raises only_fault_def)
  show ?thesis
    by (intro conjI; (rule a b c d e))
qed

text \<open>
  Claim C8, amended. For every name that the \<open>String(200)\<close> column takes (no
  character NUL; at most 200 characters, or only spaces beyond the 200th, which are cut)
  and every coordinate pair, in every session that the service has produced from the
  empty store, when the store executes the insert and the commit, \<open>create_feature\<close>
  returns the identifier that \<open>uuid4\<close> generated exactly when no feature row carries
  it; when a row does, the primary key refuses the insert and the exception leaves the
  function with nothing inserted. When it returns, it has appended exactly one feature
  row, committed, with that identifier, status \<open>queued\<close>, attempts \<open>0\<close>, both
  timestamps the current time and the point made from the longitude and the latitude;
  the footprints are untouched; and a \<open>get_feature\<close> of that identifier that the
  store answers returns status \<open>queued\<close>, attempts \<open>0\<close> and \<open>None\<close> for both buffer
  fields.
\<close>

theorem create_feature_inserts:
  fixes db :: "('pt, 'poly) state"
  assumes takes: "varchar_col 200 name_arg = Inr n"
    and store: "\<not> faults InsertFeature \<and> \<not> faults Commit"
    and reach: "reachable pg db"
    and uuid: "is_uuid fid"
    and answers: "\<not> faults' SelectFeature"
  shows "((fst (create_feature pg faults db fid now name_arg lat lon) = Inr fid)
            = (fid \<notin> feature_ids (working db)))
         \<and> (fid \<in> feature_ids (working db) \<longrightarrow>
               create_feature pg faults db fid now name_arg lat lon = (Inl UniqueViolation, db))
         \<and> (fid \<notin> feature_ids (working db) \<longrightarrow>
              (\<exists>db'. create_feature pg faults db fid now name_arg lat lon = (Inr fid, db')
                 \<and> features (working db')
                      = features (working db)
                          @ [\<lparr>id' = fid, name = n, status = ''queued'', attempts = 0,
                               created_at = now, updated_at = Some now,
                               geom = ST_MakePoint pg lon lat\<rparr>]
                 \<and> footprints (working db') = footprints (working db)
                 \<and> committed db' = working db'
                 \<and> (\<exists>d. get_feature isoformat faults' db' fid = Inr (Some d)
                        \<and> map_of d ''status'' = Some (PyStr ''queued'')
                        \<and> map_of d ''attempts'' = Some (PyInt 0)
                        \<and> map_of d ''buffer_m'' = Some PyNone
                        \<and> map_of d ''buffer_area_m2'' = Some PyNone)))"
proof -
  let ?new = "\<lparr>id' = fid, name = name_arg, status = ''queued'', attempts = 0,
                created_at = now, updated_at = Some now, geom = ST_MakePoint pg lon lat\<rparr>"
  let ?row = "\<lparr>id' = fid, name = n, status = ''queued'', attempts = 0,
                created_at = now, updated_at = Some now, geom = ST_MakePoint pg lon lat\<rparr>"
  let ?t = "(working db)\<lparr>features := features (working db) @ [?row]\<rparr>"
  let ?db = "\<lparr>committed = ?t, working = ?t, printed = printed db\<rparr>"
  let ?d = "feature_dict isoformat (?row, None :: 'poly footprint option)"
  have taken: "fid \<in> feature_ids (working db) \<Longrightarrow>
      create_feature pg faults db fid now name_arg lat lon = (Inl UniqueViolation, db)"
  proof -
    assume "fid \<in> feature_ids (working db)"
    then have "insert_feature ?new (working db) = Inl UniqueViolation"
      using takes by (simp add: insert_feature_def feature_ids_def)
    then show ?thesis
      using store by (simp add: create_feature_def execute_def)
  qed
  have fresh: "fid \<notin> feature_ids (working db) \<Longrightarrow>
      create_feature pg faults db fid now name_arg lat lon = (Inr fid, ?db)"
  proof -
    assume "fid \<notin> feature_ids (working db)"
    then have "insert_feature ?new (working db) = Inr ?t"
      using takes by (simp add: insert_feature_def feature_ids_def)
    then show ?thesis
      using store by (simp add: create_feature_def execute_def commit_def)
  qed
  have c1: "(fst (create_feature pg faults db fid now name_arg lat lon) = Inr fid)
            = (fid \<notin> feature_ids (working db))"
    using taken fresh by (cases "fid \<in> feature_ids (working db)") simp_all
  have c3: "fid \<notin> feature_ids (working db) \<longrightarrow>
              (\<exists>db'. create_feature pg faults db fid now name_arg lat lon = (Inr fid, db')
                 \<and> features (working db') = features (working db) @ [?row]
                 \<and> footprints (working db') = footprints (working db)
                 \<and> committed db' = working db'
                 \<and> (\<exists>d. get_feature isoformat faults' db' fid = Inr (Some d)
                        \<and> map_of d ''status'' = Some (PyStr ''queued'')
                        \<and> map_of d ''attempts'' = Some (PyInt 0)
                        \<and> map_of d ''buffer_m'' = Some PyNone
                        \<and> map_of d ''buffer_area_m2'' = Some PyNone))"
  proof
    assume nf: "fid \<notin> feature_ids (working db)"
    note c = fresh [OF nf]
    from nf have old: "filter (\<lambda>g. id' g = fid) (features (working db)) = []"
      by (simp add: filter_id_empty)
    have fs: "filter (\<lambda>g. id' g = fid) (features (working ?db)) = ?row # []"
      by (simp add: old)
    from nf reachable_foreign_key [OF reach]
    have "fid \<notin> set (map feature_id (footprints (working db)))"
      by (auto simp: footprint_ids_def)
    then have fps: "filter (\<lambda>fp. feature_id fp = fid) (footprints (working db)) = []"
      by (simp add: filter_no_key)
    from uuid have parsed: "uuid_param fid = Inr fid"
      by (simp add: is_uuid_def)
    have g: "get_feature isoformat faults' ?db fid = Inr (Some ?d)"
      using get_feature_found [where faults = faults', OF answers parsed fs, of isoformat]
      by (simp add: fps)
    have d1: "map_of ?d ''status'' = Some (PyStr ''queued'')"
      by (simp add: feature_dict_keys)
    have d2: "map_of ?d ''attempts'' = Some (PyInt 0)"
      by (simp add: feature_dict_keys)
    have d3: "map_of ?d ''buffer_m'' = Some PyNone"
      by (simp add: feature_dict_keys)
    have d4: "map_of ?d ''buffer_area_m2'' = Some PyNone"
      by (simp add: feature_dict_keys)
    have w1: "features (working ?db) = features (working db) @ [?row]"
      by simp
    have w2: "footprints (working ?db) = footprints (working db)"
      by simp
    have w3: "committed ?db = working ?db"
      by simp
    from c w1 w2 w3 g d1 d2 d3 d4
    show "\<exists>db'. create_feature pg faults db fid now name_arg lat lon = (Inr fid, db')
                 \<and> features (working db') = features (working db) @ [?row]
                 \<and> footprints (working db') = footprints (working db)
                 \<and> committed db' = working db'
                 \<and> (\<exists>d. get_feature isoformat faults' db' fid = Inr (Some d)
                        \<and> map_of d ''status'' = Some (PyStr ''queued'')
                        \<and> map_of d ''attempts'' = Some (PyInt 0)
                        \<and> map_of d ''buffer_m'' = Some PyNone
                        \<and> map_of d ''buffer_area_m2'' = Some PyNone)"
      by blast
  qed
  from c1 taken c3 show ?thesis
    by (intro conjI impI) simp_all
qed

theorem create_feature_inserts_witness:
  "varchar_col 200 ''Pier A'' = Inr ''Pier A''
   \<and> \<not> no_faults InsertFeature \<and> \<not> no_faults Commit
   \<and> reachable plane empty_db
   \<and> is_uuid id_a
   \<and> \<not> no_faults SelectFeature
   \<and> id_a \<notin> feature_ids (working empty_db)
   \<and> (\<exists>db'. create_feature plane no_faults empty_db id_a 1 ''Pier A'' 45 (- 73) = (Inr id_a, db')
          \<and> features (working db') = [pier_a]
          \<and> (\<exists>d. get_feature marks no_faults db' id_a = Inr (Some d)
                 \<and> map_of d ''status'' = Some (PyStr ''queued'')
                 \<and> map_of d ''attempts'' = Some (PyInt 0)
                 \<and> map_of d ''buffer_m'' = Some PyNone
                 \<and> map_of d ''buffer_area_m2'' = Some PyNone))
   \<and> id_a \<in> feature_ids (working two_piers_db)
   \<and> reachable plane two_piers_db
   \<and> create_feature plane no_faults two_piers_db id_a 3 ''Pier A'' 45 (- 73)
       = (Inl UniqueViolation, two_piers_db)"
proof -
  have h1: "varchar_col 200 ''Pier A'' = Inr ''Pier A''"
    by (simp add: varchar_col_def text_param_def)
  have h2: "id_a \<notin> feature_ids (working empty_db)"
    by (simp add: feature_ids_def empty_db_def empty_tables_def)
  have h3: "\<not> no_faults InsertFeature \<and> \<not> no_faults Commit"
    by (simp add: no_faults_def)
  have h4: "is_uuid id_a"
    by (simp add: is_uuid_def example_ids)
  have h5: "\<not> no_faults SelectFeature"
    by (simp add: no_faults_def)
  have h6: "id_a \<in> feature_ids (working two_piers_db)"
    by (simp add: feature_ids_def two_piers_db_def two_piers_def pier_a_def)
  have r: "features (working empty_db) @ [\<lparr>id' = id_a, name = ''Pier A'', status = ''queued'',
              attempts = 0, created_at = 1, updated_at = Some 1,
              geom = ST_MakePoint plane (- 73) 45\<rparr>] = [pier_a]"
    by (simp add: empty_db_def empty_tables_def pier_a_def plane_def)
  note t = create_feature_inserts [where faults' = no_faults and faults = no_faults
      and isoformat = marks and pg = plane and now = 1 and lat = 45 and lon = "- 73",
      OF h1 h3 reachable_empty_db h4 h5]
  from t [THEN conjunct2, THEN conjunct2, THEN mp, OF h2] obtain db' where
    a: "create_feature plane no_faults empty_db id_a 1 ''Pier A'' 45 (- 73) = (Inr id_a, db')"
    and b: "features (working db')
                = features (working empty_db)
                    @ [\<lparr>id' = id_a, name = ''Pier A'', status = ''queued'', attempts = 0,
                         created_at = 1, updated_at = Some 1,
                         geom = ST_MakePoint plane (- 73) 45\<rparr>]"
    and c: "\<exists>d. get_feature marks no_faults db' id_a = Inr (Some d)
                  \<and> map_of d ''status'' = Some (PyStr ''queued'')
                  \<and> map_of d ''attempts'' = Some (PyInt 0)
                  \<and> map_of d ''buffer_m'' = Some PyNone
                  \<and> map_of d ''buffer_area_m2'' = Some PyNone"
    by (elim exE conjE) (rule that, assumption, assumption, intro exI conjI, assumption+)
  from b r have b': "features (working db') = [pier_a]"
    by (simp only:)
  from a b' c
  have m: "\<exists>db'. create_feature plane no_faults empty_db id_a 1 ''Pier A'' 45 (- 73) = (Inr id_a, db')
          \<and> features (working db') = [pier_a]
          \<and> (\<exists>d. get_feature marks no_faults db' id_a = Inr (Some d)
                 \<and> map_of d ''status'' = Some (PyStr ''queued'')
                 \<and> map_of d ''attempts'' = Some (PyInt 0)
                 \<and> map_of d ''buffer_m'' = Some PyNone
                 \<and> map_of d ''buffer_area_m2'' = Some PyNone)"
    by (intro exI [of _ db'] conjI)
  from create_feature_inserts [where faults' = no_faults and faults = no_faults
      and isoformat = marks and pg = plane and now = 3 and lat = 45 and lon = "- 73",
      OF h1 h3 reachable_two_piers_db h4 h5, THEN conjunct2, THEN conjunct1, THEN mp, OF h6]
  have k: "create_feature plane no_faults two_piers_db id_a 3 ''Pier A'' 45 (- 73)
       = (Inl UniqueViolation, two_piers_db)"
    by (simp only:)
  show ?thesis
    by (intro conjI; (rule h1 h3 [THEN conjunct1] h3 [THEN conjunct2] reachable_empty_db h4 h5
        h2 m h6 reachable_two_piers_db k))
qed

end
